theory Spec2Isabelle
  imports Complex_Main
begin

section \<open>JavaScript values\<close>

text \<open>
  The server in \<^verbatim>\<open>src/index.js\<close> receives its call arguments and its upstream
  responses as parsed JSON.  \<open>json\<close> is what \<^verbatim>\<open>JSON.parse\<close> can produce; \<open>jsval\<close>
  adds \<^verbatim>\<open>undefined\<close>, which the program meets as a missing property or a missing
  argument.  An object is the list of its own properties in insertion order.  A number
  is the rational value of the double, or one of the two infinities, which \<^verbatim>\<open>JSON.parse\<close>
  returns for a literal beyond the range of the doubles.  A string is the list of its code
  units, one \<open>char\<close> each: the model has the strings whose code units are below 256.
\<close>

datatype json =
    JsonNull
  | JsonBool bool
  | JsonNum rat
  | JsonInfinity
  | JsonNegInfinity
  | JsonStr string
  | JsonArr "json list"
  | JsonObj "(string \<times> json) list"

datatype jsval =
    Undefined
  | VNull
  | VBool bool
  | VNum rat
  | VInfinity
  | VNegInfinity
  | VStr string
  | VArr "jsval list"
  | VObj "(string \<times> jsval) list"

type_synonym obj = "(string \<times> jsval) list"

primrec of_json :: "json \<Rightarrow> jsval" where
  "of_json JsonNull = VNull"
| "of_json (JsonBool b) = VBool b"
| "of_json (JsonNum n) = VNum n"
| "of_json JsonInfinity = VInfinity"
| "of_json JsonNegInfinity = VNegInfinity"
| "of_json (JsonStr s) = VStr s"
| "of_json (JsonArr xs) = VArr (map of_json xs)"
| "of_json (JsonObj ps) = VObj (map (map_prod id of_json) ps)"

text \<open>Every value the program throws is an \<^verbatim>\<open>Error\<close> object; only its message is read.\<close>

datatype js_error = Error string | TypeError string | SyntaxError string

fun error_message :: "js_error \<Rightarrow> string" where
  "error_message (Error m) = m"
| "error_message (TypeError m) = m"
| "error_message (SyntaxError m) = m"

text \<open>A computation that may throw, without other effects.\<close>

fun ebind :: "js_error + 'a \<Rightarrow> ('a \<Rightarrow> js_error + 'b) \<Rightarrow> js_error + 'b" where
  "ebind (Inl e) f = Inl e"
| "ebind (Inr x) f = f x"

text \<open>The result of \<^verbatim>\<open>ToNumber\<close>, which is not always finite.\<close>

datatype number = NaN | NegInfinity | Finite rat | PosInfinity

fun number_gt :: "number \<Rightarrow> rat \<Rightarrow> bool" where
  "number_gt NaN n = False"
| "number_gt NegInfinity n = False"
| "number_gt (Finite q) n = (n < q)"
| "number_gt PosInfinity n = True"

text \<open>
  Built-ins of the JavaScript runtime whose results the program only passes on.  They are
  parameters of the model: every theorem holds for each behaviour they can have.
  \<^item> \<open>rt_StringToNumber\<close>: the numeric value of a string (\<^verbatim>\<open>StringToNumber\<close>);
  \<^item> \<open>rt_NumberToString\<close>: the text of a number that is not a safe integer;
  \<^item> \<open>rt_JSON_stringify\<close>: \<^verbatim>\<open>JSON.stringify(v, null, indent)\<close> for a defined \<open>v\<close>;
  \<^item> \<open>rt_toISOString\<close>: \<^verbatim>\<open>new Date(ms).toISOString()\<close>;
  \<^item> \<open>rt_Buffer_base64\<close>: \<^verbatim>\<open>Buffer.from(v).toString('base64')\<close>, which throws on a
    value no buffer can be made from;
  \<^item> \<open>rt_Buffer_decode\<close>: \<^verbatim>\<open>Buffer.from(v, 'base64').toString('utf-8')\<close>;
  \<^item> \<open>rt_URLSearchParams\<close>: the serialisation of \<^verbatim>\<open>new URLSearchParams(...)\<close>, given
    the entries already converted to strings.
\<close>

record runtime =
  rt_StringToNumber :: "string \<Rightarrow> number"
  rt_NumberToString :: "rat \<Rightarrow> string"
  rt_JSON_stringify :: "nat \<Rightarrow> jsval \<Rightarrow> string"
  rt_toISOString :: "int \<Rightarrow> string"
  rt_Buffer_base64 :: "jsval \<Rightarrow> js_error + string"
  rt_Buffer_decode :: "jsval \<Rightarrow> js_error + string"
  rt_URLSearchParams :: "(string \<times> string) list \<Rightarrow> string"

subsection \<open>Truthiness, property reads and assignments\<close>

fun js_truthy :: "jsval \<Rightarrow> bool" where
  "js_truthy Undefined = False"
| "js_truthy VNull = False"
| "js_truthy (VBool b) = b"
| "js_truthy (VNum n) = (n \<noteq> 0)"
| "js_truthy VInfinity = True"
| "js_truthy VNegInfinity = True"
| "js_truthy (VStr s) = (s \<noteq> [])"
| "js_truthy (VArr xs) = True"
| "js_truthy (VObj ps) = True"

text \<open>An own property of an object, \<^verbatim>\<open>undefined\<close> when there is none.\<close>

definition field :: "obj \<Rightarrow> string \<Rightarrow> jsval" where
  "field ps k = (case map_of ps k of None \<Rightarrow> Undefined | Some v \<Rightarrow> v)"

text \<open>
  The property read \<^verbatim>\<open>v.k\<close>.  Reading from \<^verbatim>\<open>undefined\<close> or \<^verbatim>\<open>null\<close> throws.  Strings
  and arrays answer \<^verbatim>\<open>length\<close>; the program reads no index and no inherited property
  by name.
\<close>

definition quoted :: "string \<Rightarrow> string" where
  "quoted k = [CHR 0x27] @ k @ [CHR 0x27]"

fun get_prop :: "jsval \<Rightarrow> string \<Rightarrow> js_error + jsval" where
  "get_prop Undefined k =
     Inl (TypeError (''Cannot read properties of undefined (reading '' @ quoted k @ '')''))"
| "get_prop VNull k =
     Inl (TypeError (''Cannot read properties of null (reading '' @ quoted k @ '')''))"
| "get_prop (VObj ps) k = Inr (field ps k)"
| "get_prop (VStr s) k = Inr (if k = ''length'' then VNum (of_nat (length s)) else Undefined)"
| "get_prop (VArr xs) k = Inr (if k = ''length'' then VNum (of_nat (length xs)) else Undefined)"
| "get_prop (VBool b) k = Inr Undefined"
| "get_prop (VNum n) k = Inr Undefined"
| "get_prop VInfinity k = Inr Undefined"
| "get_prop VNegInfinity k = Inr Undefined"

text \<open>
  The assignment \<^verbatim>\<open>o.k = v\<close> on an object: an existing property keeps its place, a new
  one goes last.
\<close>

fun set_prop :: "string \<Rightarrow> jsval \<Rightarrow> obj \<Rightarrow> obj" where
  "set_prop k v [] = [(k, v)]"
| "set_prop k v (p # ps) = (if fst p = k then (k, v) # ps else p # set_prop k v ps)"

subsection \<open>Conversions\<close>

text \<open>Decimal digits of a natural number.\<close>

fun digits :: "nat \<Rightarrow> string" where
  "digits n =
     (if n < 10 then [''0123456789'' ! n]
      else digits (n div 10) @ [''0123456789'' ! (n mod 10)])"

text \<open>
  \<^verbatim>\<open>Number.prototype.toString\<close>: a safe integer prints as its decimal digits; the text
  of any other number is the runtime's.
\<close>

definition number_to_string :: "runtime \<Rightarrow> rat \<Rightarrow> string" where
  "number_to_string rt q =
     (if q = of_int \<lfloor>q\<rfloor> \<and> \<bar>q\<bar> \<le> 9007199254740991
      then (if q < 0 then ''-'' @ digits (nat (- \<lfloor>q\<rfloor>)) else digits (nat \<lfloor>q\<rfloor>))
      else rt_NumberToString rt q)"

fun join :: "string \<Rightarrow> string list \<Rightarrow> string" where
  "join sep [] = []"
| "join sep [x] = x"
| "join sep (x # y # ys) = x @ sep @ join sep (y # ys)"

text \<open>The first error of a list of results, or all the values.\<close>

fun sequence :: "(js_error + 'a) list \<Rightarrow> js_error + 'a list" where
  "sequence [] = Inr []"
| "sequence (Inl e # rs) = Inl e"
| "sequence (Inr x # rs) = (case sequence rs of Inl e \<Rightarrow> Inl e | Inr xs \<Rightarrow> Inr (x # xs))"

text \<open>
  \<^verbatim>\<open>ToString\<close>.  An array joins its elements (\<^verbatim>\<open>null\<close> and \<^verbatim>\<open>undefined\<close> as the empty
  string).  An object parsed from JSON has no callable property of its own: with an own
  \<^verbatim>\<open>toString\<close> property neither \<^verbatim>\<open>toString\<close> nor the inherited \<^verbatim>\<open>valueOf\<close> yields a
  primitive and the conversion throws; without one the inherited \<^verbatim>\<open>toString\<close> answers.
\<close>

primrec to_string :: "runtime \<Rightarrow> jsval \<Rightarrow> js_error + string" where
  "to_string rt Undefined = Inr ''undefined''"
| "to_string rt VNull = Inr ''null''"
| "to_string rt (VBool b) = Inr (if b then ''true'' else ''false'')"
| "to_string rt (VNum n) = Inr (number_to_string rt n)"
| "to_string rt VInfinity = Inr ''Infinity''"
| "to_string rt VNegInfinity = Inr ''-Infinity''"
| "to_string rt (VStr s) = Inr s"
| "to_string rt (VArr xs) =
     (case sequence (map (\<lambda>v. if v = Undefined \<or> v = VNull then Inr [] else to_string rt v) xs) of
        Inl e \<Rightarrow> Inl e
      | Inr ss \<Rightarrow> Inr (join '','' ss))"
| "to_string rt (VObj ps) =
     (if ''toString'' \<in> fst ` set ps
      then Inl (TypeError ''Cannot convert object to primitive value'')
      else Inr ''[object Object]'')"

text \<open>
  \<^verbatim>\<open>ToNumber\<close>.  An array or object is first converted to a primitive, which for a value
  parsed from JSON is the string above (the inherited \<^verbatim>\<open>valueOf\<close> returns the object).
\<close>

fun to_number :: "runtime \<Rightarrow> jsval \<Rightarrow> js_error + number" where
  "to_number rt Undefined = Inr NaN"
| "to_number rt VNull = Inr (Finite 0)"
| "to_number rt (VBool b) = Inr (Finite (if b then 1 else 0))"
| "to_number rt (VNum n) = Inr (Finite n)"
| "to_number rt VInfinity = Inr PosInfinity"
| "to_number rt VNegInfinity = Inr NegInfinity"
| "to_number rt (VStr s) = Inr (rt_StringToNumber rt s)"
| "to_number rt (VArr xs) = ebind (to_string rt (VArr xs)) (\<lambda>s. Inr (rt_StringToNumber rt s))"
| "to_number rt (VObj ps) = ebind (to_string rt (VObj ps)) (\<lambda>s. Inr (rt_StringToNumber rt s))"

text \<open>The comparison \<^verbatim>\<open>v > n\<close> with a number literal on the right.\<close>

definition js_gt :: "runtime \<Rightarrow> jsval \<Rightarrow> rat \<Rightarrow> js_error + bool" where
  "js_gt rt v n = ebind (to_number rt v) (\<lambda>x. Inr (number_gt x n))"

text \<open>A template literal: the substitutions are converted left to right.\<close>

datatype piece = Lit string | Sub jsval

fun template :: "runtime \<Rightarrow> piece list \<Rightarrow> js_error + string" where
  "template rt [] = Inr []"
| "template rt (Lit s # ps) = ebind (template rt ps) (\<lambda>r. Inr (s @ r))"
| "template rt (Sub v # ps) =
     ebind (to_string rt v) (\<lambda>s. ebind (template rt ps) (\<lambda>r. Inr (s @ r)))"

section \<open>Logging utilities: \<^verbatim>\<open>sanitizeArgs\<close>\<close>

text \<open>
  The call arguments are absent (\<open>None\<close>, \<^verbatim>\<open>undefined\<close> in the source) or an object: the
  protocol library accepts nothing else for \<^verbatim>\<open>params.arguments\<close>.

  \<^verbatim>\<open>sanitized.content && sanitized.content.length > 200\<close>:
\<close>

definition content_too_long :: "runtime \<Rightarrow> jsval \<Rightarrow> js_error + bool" where
  "content_too_long rt c =
     (if js_truthy c then ebind (get_prop c ''length'') (\<lambda>l. js_gt rt l 200) else Inr False)"

text \<open>\<^verbatim>\<open>`[${sanitized.content.length} chars]`\<close>:\<close>

definition length_indicator :: "runtime \<Rightarrow> jsval \<Rightarrow> js_error + jsval" where
  "length_indicator rt c =
     ebind (get_prop c ''length'')
       (\<lambda>l. ebind (template rt [Lit ''['', Sub l, Lit '' chars]'']) (\<lambda>s. Inr (VStr s)))"

definition redact :: "string \<Rightarrow> obj \<Rightarrow> obj" where
  "redact k sanitized =
     (if js_truthy (field sanitized k) then set_prop k (VStr ''[REDACTED]'') sanitized
      else sanitized)"

definition sanitizeArgs :: "runtime \<Rightarrow> obj option \<Rightarrow> js_error + obj option" where
  "sanitizeArgs rt args =
     (case args of
        None \<Rightarrow> Inr None
      | Some ps \<Rightarrow>
          ebind (content_too_long rt (field ps ''content''))
            (\<lambda>long.
               ebind (if long
                      then ebind (length_indicator rt (field ps ''content''))
                             (\<lambda>c. Inr (set_prop ''content'' c ps))
                      else Inr ps)
                 (\<lambda>sanitized. Inr (Some (redact ''password'' (redact ''token'' sanitized))))))"

text \<open>
  Two objects with the same properties in the same order whose values agree everywhere but,
  possibly, at the property \<open>k\<close>.
\<close>

definition differ_only_at :: "string \<Rightarrow> obj \<Rightarrow> obj \<Rightarrow> bool" where
  "differ_only_at k a b = list_all2 (\<lambda>p q. fst p = fst q \<and> (fst p = k \<or> snd p = snd q)) a b"

text \<open>
  The same function over a store of objects, where \<^verbatim>\<open>args\<close> and \<^verbatim>\<open>sanitized\<close> are
  references: \<^verbatim>\<open>{ ...args }\<close> allocates a new object with the own properties of
  \<^verbatim>\<open>args\<close>, and each assignment writes to the object \<^verbatim>\<open>sanitized\<close> refers to.  A
  reference is an index into the store.
\<close>

type_synonym store = "obj list"

definition assign :: "nat \<Rightarrow> string \<Rightarrow> jsval \<Rightarrow> store \<Rightarrow> store" where
  "assign r k v st = st[r := set_prop k v (st ! r)]"

definition redact_at :: "nat \<Rightarrow> string \<Rightarrow> store \<Rightarrow> store" where
  "redact_at r k st =
     (if js_truthy (field (st ! r) k) then assign r k (VStr ''[REDACTED]'') st else st)"

definition sanitizeArgs_store ::
  "runtime \<Rightarrow> nat option \<Rightarrow> store \<Rightarrow> (js_error + nat option) \<times> store" where
  "sanitizeArgs_store rt args st =
     (case args of
        None \<Rightarrow> (Inr None, st)
      | Some a \<Rightarrow>
          (let sanitized = length st;
               st1 = st @ [st ! a]
           in case content_too_long rt (field (st1 ! sanitized) ''content'') of
                Inl e \<Rightarrow> (Inl e, st1)
              | Inr long \<Rightarrow>
                  (case (if long
                         then ebind (length_indicator rt (field (st1 ! sanitized) ''content''))
                                (\<lambda>c. Inr (assign sanitized ''content'' c st1))
                         else Inr st1) of
                     Inl e \<Rightarrow> (Inl e, st1)
                   | Inr st2 \<Rightarrow>
                       (Inr (Some sanitized),
                        redact_at sanitized ''password'' (redact_at sanitized ''token'' st2)))))"

section \<open>The world outside the program\<close>

text \<open>
  One request sent with \<^verbatim>\<open>fetch\<close>, and the part of the response the program reads:
  the status, the status text and the result of \<^verbatim>\<open>response.json()\<close>, which rejects when
  the body is not JSON.
\<close>

record http_request =
  url :: string
  http_method :: string
  headers :: "(string \<times> string) list"
  request_body :: "string option"

record http_response =
  status :: nat
  statusText :: string
  json_body :: "js_error + json"

text \<open>
  The lines \<^verbatim>\<open>console.log\<close> writes, one constructor for each format string of the source
  with the values it interpolates (the pictographs and rules are fixed text).
\<close>

datatype log_line =
    Rule_heavy
  | Rule_light
  | TOOL_CALL string
  | Time string
  | Session string
  | Arguments string
  | Result bool int
  | Error_text string
  | Response string

text \<open>
  The state a call can read or change: the environment variable, the upstream service
  (its answer may depend on every request sent before), the requests sent so far, the
  console, the clock (the value of its \<open>n\<close>-th reading), and the order in which responses
  arrive (of \<open>n\<close> requests that fail, the position of the one whose failure arrives first).
\<close>

record world =
  GITHUB_TOKEN :: "string option"
  upstream :: "http_request list \<Rightarrow> http_request \<Rightarrow> js_error + http_response"
  issued :: "http_request list"
  console :: "log_line list"
  clock :: "nat \<Rightarrow> int"
  clock_reads :: nat
  arrives_first :: "nat \<Rightarrow> nat"

text \<open>An effectful computation that returns or throws.\<close>

type_synonym 'a io = "world \<Rightarrow> (js_error + 'a) \<times> world"

definition return :: "'a \<Rightarrow> 'a io" where
  "return x w = (Inr x, w)"

definition throw :: "js_error \<Rightarrow> 'a io" where
  "throw e w = (Inl e, w)"

definition lift :: "js_error + 'a \<Rightarrow> 'a io" where
  "lift r w = (r, w)"

definition bind :: "'a io \<Rightarrow> ('a \<Rightarrow> 'b io) \<Rightarrow> 'b io" where
  "bind m f w = (case m w of (Inl e, w') \<Rightarrow> (Inl e, w') | (Inr x, w') \<Rightarrow> f x w')"

definition try_catch :: "'a io \<Rightarrow> (js_error \<Rightarrow> 'a io) \<Rightarrow> 'a io" where
  "try_catch m h w = (case m w of (Inl e, w') \<Rightarrow> h e w' | (Inr x, w') \<Rightarrow> (Inr x, w'))"

definition console_log :: "log_line \<Rightarrow> unit io" where
  "console_log l w = (Inr (), w\<lparr>console := console w @ [l]\<rparr>)"

definition Date_now :: "int io" where
  "Date_now w = (Inr (clock w (clock_reads w)), w\<lparr>clock_reads := Suc (clock_reads w)\<rparr>)"

definition fetch :: "http_request \<Rightarrow> http_response io" where
  "fetch req w = (upstream w (issued w) req, w\<lparr>issued := issued w @ [req]\<rparr>)"

text \<open>\<^verbatim>\<open>process.env.GITHUB_TOKEN || ''\<close>:\<close>

definition getGithubToken :: "string io" where
  "getGithubToken w = (Inr (case GITHUB_TOKEN w of None \<Rightarrow> [] | Some t \<Rightarrow> t), w)"

text \<open>\<^verbatim>\<open>JSON.stringify\<close> answers \<^verbatim>\<open>undefined\<close> for \<^verbatim>\<open>undefined\<close>; indent \<open>0\<close> is no indent.\<close>

definition JSON_stringify :: "runtime \<Rightarrow> nat \<Rightarrow> jsval \<Rightarrow> string option" where
  "JSON_stringify rt indent v = (if v = Undefined then None else Some (rt_JSON_stringify rt indent v))"

section \<open>GitHub API functions\<close>

definition GITHUB_API_URL :: string where
  "GITHUB_API_URL = ''https://api.github.com''"

definition ok :: "http_response \<Rightarrow> bool" where
  "ok response = (200 \<le> status response \<and> status response \<le> 299)"

text \<open>The URL and the \<^verbatim>\<open>options\<close> that \<^verbatim>\<open>githubRequest\<close> passes to \<^verbatim>\<open>fetch\<close>.\<close>

definition fetch_options :: "runtime \<Rightarrow> string \<Rightarrow> string \<Rightarrow> string \<Rightarrow> jsval \<Rightarrow> http_request" where
  "fetch_options rt githubToken endpoint method body =
     \<lparr>url = GITHUB_API_URL @ endpoint,
      http_method = method,
      headers = [(''Authorization'', ''Bearer '' @ githubToken),
                 (''Accept'', ''application/vnd.github.v3+json''),
                 (''Content-Type'', ''application/json''),
                 (''X-GitHub-Api-Version'', ''2022-11-28'')],
      request_body = (if js_truthy body then JSON_stringify rt 0 body else None)\<rparr>"

definition githubRequest :: "runtime \<Rightarrow> string \<Rightarrow> string \<Rightarrow> jsval \<Rightarrow> jsval io" where
  "githubRequest rt endpoint method body =
     bind getGithubToken (\<lambda>githubToken.
       if githubToken = []
       then throw (Error ''GITHUB_TOKEN environment variable is not set'')
       else
         bind (fetch (fetch_options rt githubToken endpoint method body))
           (\<lambda>response.
              if status response = 204 then return (VObj [(''success'', VBool True)])
              else if \<not> ok response then
                bind (return (case json_body response of
                                Inl e \<Rightarrow> VObj [(''message'', VStr (statusText response))]
                              | Inr j \<Rightarrow> of_json j))
                  (\<lambda>error.
                     bind (lift (get_prop error ''message''))
                       (\<lambda>m.
                          bind (lift (to_string rt
                                  (if js_truthy m then m
                                   else VStr (''GitHub API error: '' @ digits (status response)))))
                            (\<lambda>text. throw (Error text))))
              else lift (map_sum id of_json (json_body response))))"

text \<open>A parameter left out takes its default: \<^verbatim>\<open>undefined\<close> does, \<^verbatim>\<open>null\<close> does not.\<close>

definition dflt :: "jsval \<Rightarrow> jsval \<Rightarrow> jsval" where
  "dflt d v = (if v = Undefined then d else v)"

text \<open>A request whose endpoint is a template literal.\<close>

definition request_at :: "runtime \<Rightarrow> piece list \<Rightarrow> string \<Rightarrow> jsval \<Rightarrow> jsval io" where
  "request_at rt endpoint method body =
     bind (lift (template rt endpoint)) (\<lambda>e. githubRequest rt e method body)"

definition read_prop :: "jsval \<Rightarrow> string \<Rightarrow> jsval io" where
  "read_prop v k = lift (get_prop v k)"

definition githubGetUser :: "runtime \<Rightarrow> jsval io" where
  "githubGetUser rt = githubRequest rt ''/user'' ''GET'' VNull"

definition githubVerifyToken :: "runtime \<Rightarrow> jsval io" where
  "githubVerifyToken rt =
     try_catch
       (bind (githubGetUser rt) (\<lambda>user.
        bind (read_prop user ''login'') (\<lambda>login.
        bind (read_prop user ''name'') (\<lambda>name.
        bind (read_prop user ''email'') (\<lambda>email.
        bind (read_prop user ''avatar_url'') (\<lambda>avatar_url.
          return (VObj [(''valid'', VBool True),
                        (''user'', VObj [(''login'', login), (''name'', name),
                                         (''email'', email), (''avatar_url'', avatar_url)])])))))))
       (\<lambda>error. return (VObj [(''valid'', VBool False), (''error'', VStr (error_message error))]))"

definition githubListRepositories :: "runtime \<Rightarrow> jsval \<Rightarrow> jsval \<Rightarrow> jsval io" where
  "githubListRepositories rt sort' perPage =
     request_at rt [Lit ''/user/repos?sort='', Sub (dflt (VStr ''updated'') sort'),
                    Lit ''&per_page='', Sub (dflt (VNum 30) perPage)] ''GET'' VNull"

definition githubGetRepository :: "runtime \<Rightarrow> jsval \<Rightarrow> jsval \<Rightarrow> jsval io" where
  "githubGetRepository rt owner repo =
     request_at rt [Lit ''/repos/'', Sub owner, Lit ''/'', Sub repo] ''GET'' VNull"

definition githubCreateRepository ::
  "runtime \<Rightarrow> jsval \<Rightarrow> jsval \<Rightarrow> jsval \<Rightarrow> jsval \<Rightarrow> jsval io" where
  "githubCreateRepository rt name description isPrivate autoInit =
     githubRequest rt ''/user/repos'' ''POST''
       (VObj [(''name'', name),
              (''description'', dflt (VStr []) description),
              (''private'', dflt (VBool False) isPrivate),
              (''auto_init'', dflt (VBool True) autoInit)])"

definition githubDeleteRepository :: "runtime \<Rightarrow> jsval \<Rightarrow> jsval \<Rightarrow> jsval io" where
  "githubDeleteRepository rt owner repo =
     request_at rt [Lit ''/repos/'', Sub owner, Lit ''/'', Sub repo] ''DELETE'' VNull"

text \<open>
  \<^verbatim>\<open>data.content\<close> is truthy only when \<open>data\<close> is an object, so the assignment of
  \<^verbatim>\<open>decodedContent\<close> always writes to an object.
\<close>

definition githubGetFileContents ::
  "runtime \<Rightarrow> jsval \<Rightarrow> jsval \<Rightarrow> jsval \<Rightarrow> jsval \<Rightarrow> jsval io" where
  "githubGetFileContents rt owner repo path ref =
     bind (request_at rt [Lit ''/repos/'', Sub owner, Lit ''/'', Sub repo, Lit ''/contents/'',
                          Sub path, Lit ''?ref='', Sub (dflt (VStr ''main'') ref)] ''GET'' VNull)
       (\<lambda>data.
          bind (read_prop data ''content'') (\<lambda>content.
            if js_truthy content then
              bind (read_prop data ''encoding'') (\<lambda>encoding.
                if encoding = VStr ''base64'' then
                  bind (lift (rt_Buffer_decode rt content)) (\<lambda>decoded.
                    return (case data of
                              VObj ps \<Rightarrow> VObj (set_prop ''decodedContent'' (VStr decoded) ps)
                            | _ \<Rightarrow> data))
                else return data)
            else return data))"

definition githubCreateOrUpdateFile ::
  "runtime \<Rightarrow> jsval \<Rightarrow> jsval \<Rightarrow> jsval \<Rightarrow> jsval \<Rightarrow> jsval \<Rightarrow> jsval \<Rightarrow> jsval \<Rightarrow> jsval io" where
  "githubCreateOrUpdateFile rt owner repo path content message branch sha =
     bind (lift (rt_Buffer_base64 rt content)) (\<lambda>encoded.
       request_at rt [Lit ''/repos/'', Sub owner, Lit ''/'', Sub repo, Lit ''/contents/'', Sub path]
         ''PUT''
         (VObj ((if js_truthy (dflt VNull sha) then set_prop ''sha'' (dflt VNull sha) else id)
                  [(''message'', message),
                   (''content'', VStr encoded),
                   (''branch'', dflt (VStr ''main'') branch)])))"

definition githubDeleteFile ::
  "runtime \<Rightarrow> jsval \<Rightarrow> jsval \<Rightarrow> jsval \<Rightarrow> jsval \<Rightarrow> jsval \<Rightarrow> jsval \<Rightarrow> jsval io" where
  "githubDeleteFile rt owner repo path message sha branch =
     request_at rt [Lit ''/repos/'', Sub owner, Lit ''/'', Sub repo, Lit ''/contents/'', Sub path]
       ''DELETE''
       (VObj [(''message'', message), (''sha'', sha), (''branch'', dflt (VStr ''main'') branch)])"

text \<open>
  \<^verbatim>\<open>githubPushFiles\<close> starts one upload for every file before it waits for any of them
  (\<^verbatim>\<open>Promise.all\<close> over \<^verbatim>\<open>files.map\<close>): every callback runs, in the order of the files,
  whatever happens to the others.  \<open>blob_callback\<close> is the callback.  \<open>upload_blob\<close> runs
  it and says whether it failed at once, that is, before it sent its request.
\<close>

definition blob_callback :: "runtime \<Rightarrow> jsval \<Rightarrow> jsval \<Rightarrow> jsval \<Rightarrow> jsval io" where
  "blob_callback rt owner repo file =
     bind (lift (template rt [Lit ''/repos/'', Sub owner, Lit ''/'', Sub repo,
                              Lit ''/git/blobs''])) (\<lambda>blobs.
     bind (read_prop file ''content'') (\<lambda>content.
     bind (githubRequest rt blobs ''POST''
             (VObj [(''content'', content), (''encoding'', VStr ''utf-8'')])) (\<lambda>blobData.
     bind (read_prop file ''path'') (\<lambda>path.
     bind (read_prop blobData ''sha'') (\<lambda>sha.
       return (VObj [(''path'', path), (''mode'', VStr ''100644''),
                     (''type'', VStr ''blob''), (''sha'', sha)]))))))"

definition upload_blob ::
  "runtime \<Rightarrow> jsval \<Rightarrow> jsval \<Rightarrow> jsval \<Rightarrow> world \<Rightarrow> (bool \<times> (js_error + jsval)) \<times> world" where
  "upload_blob rt owner repo file w =
     (case blob_callback rt owner repo file w of
        (r, w') \<Rightarrow> ((isl r \<and> issued w' = issued w, r), w'))"

fun upload_blobs ::
  "runtime \<Rightarrow> jsval \<Rightarrow> jsval \<Rightarrow> jsval list \<Rightarrow> world \<Rightarrow> (bool \<times> (js_error + jsval)) list \<times> world" where
  "upload_blobs rt owner repo [] w = ([], w)"
| "upload_blobs rt owner repo (file # files) w =
     (case upload_blob rt owner repo file w of
        (r, w') \<Rightarrow> (case upload_blobs rt owner repo files w' of (rs, w'') \<Rightarrow> (r # rs, w'')))"

text \<open>The failures among a list of results, in their order.\<close>

fun failures :: "(js_error + 'a) list \<Rightarrow> js_error list" where
  "failures [] = []"
| "failures (Inl e # rs) = e # failures rs"
| "failures (Inr x # rs) = failures rs"

text \<open>
  \<^verbatim>\<open>Promise.all\<close> rejects with the first rejection to arrive.  The uploads that failed at
  once are rejected before any response arrives, in the order of the files.  When there is
  none of them, the failure that arrives first among those of the other uploads is the one
  the network delivers first.
\<close>

definition Promise_all :: "(bool \<times> (js_error + jsval)) list \<Rightarrow> jsval list io" where
  "Promise_all rs w =
     (case failures (map snd (filter fst rs)) of
        e # _ \<Rightarrow> (Inl e, w)
      | [] \<Rightarrow>
          (case failures (map snd rs) of
             [] \<Rightarrow> (sequence (map snd rs), w)
           | e # es \<Rightarrow>
               (Inl ((e # es) ! min (arrives_first w (length (e # es))) (length es)), w)))"

text \<open>\<^verbatim>\<open>files.map(...)\<close> throws unless \<open>files\<close> is an array.\<close>

definition map_files ::
  "runtime \<Rightarrow> jsval \<Rightarrow> jsval \<Rightarrow> jsval \<Rightarrow> (bool \<times> (js_error + jsval)) list io" where
  "map_files rt owner repo files =
     (case files of
        VArr fs \<Rightarrow> (\<lambda>w. case upload_blobs rt owner repo fs w of (rs, w') \<Rightarrow> (Inr rs, w'))
      | Undefined \<Rightarrow> throw (TypeError ''Cannot read properties of undefined (reading 'map')'')
      | VNull \<Rightarrow> throw (TypeError ''Cannot read properties of null (reading 'map')'')
      | _ \<Rightarrow> throw (TypeError ''files.map is not a function''))"

definition githubPushFiles ::
  "runtime \<Rightarrow> jsval \<Rightarrow> jsval \<Rightarrow> jsval \<Rightarrow> jsval \<Rightarrow> jsval \<Rightarrow> jsval io" where
  "githubPushFiles rt owner repo files message branch' =
     (let branch = dflt (VStr ''main'') branch' in
      bind (request_at rt [Lit ''/repos/'', Sub owner, Lit ''/'', Sub repo,
                           Lit ''/git/ref/heads/'', Sub branch] ''GET'' VNull) (\<lambda>refData.
      bind (read_prop refData ''object'') (\<lambda>object.
      bind (read_prop object ''sha'') (\<lambda>currentCommitSha.
      bind (request_at rt [Lit ''/repos/'', Sub owner, Lit ''/'', Sub repo,
                           Lit ''/git/commits/'', Sub currentCommitSha] ''GET'' VNull) (\<lambda>commitData.
      bind (read_prop commitData ''tree'') (\<lambda>tree.
      bind (read_prop tree ''sha'') (\<lambda>baseTreeSha.
      bind (map_files rt owner repo files) (\<lambda>uploads.
      bind (Promise_all uploads) (\<lambda>treeItems.
      bind (request_at rt [Lit ''/repos/'', Sub owner, Lit ''/'', Sub repo, Lit ''/git/trees'']
              ''POST'' (VObj [(''base_tree'', baseTreeSha), (''tree'', VArr treeItems)])) (\<lambda>newTree.
      bind (lift (template rt [Lit ''/repos/'', Sub owner, Lit ''/'', Sub repo,
                               Lit ''/git/commits''])) (\<lambda>commits.
      bind (read_prop newTree ''sha'') (\<lambda>newTreeSha.
      bind (githubRequest rt commits ''POST''
              (VObj [(''message'', message), (''tree'', newTreeSha),
                     (''parents'', VArr [currentCommitSha])])) (\<lambda>newCommit.
      bind (lift (template rt [Lit ''/repos/'', Sub owner, Lit ''/'', Sub repo,
                               Lit ''/git/refs/heads/'', Sub branch])) (\<lambda>heads.
      bind (read_prop newCommit ''sha'') (\<lambda>newCommitSha.
      bind (githubRequest rt heads ''PATCH'' (VObj [(''sha'', newCommitSha)])) (\<lambda>_.
      bind (read_prop files ''length'') (\<lambda>filesUpdated.
        return (VObj [(''commit'', newCommit), (''filesUpdated'', filesUpdated)]))))))))))))))))))"

definition githubListBranches :: "runtime \<Rightarrow> jsval \<Rightarrow> jsval \<Rightarrow> jsval io" where
  "githubListBranches rt owner repo =
     request_at rt [Lit ''/repos/'', Sub owner, Lit ''/'', Sub repo, Lit ''/branches''] ''GET'' VNull"

definition githubGetBranch :: "runtime \<Rightarrow> jsval \<Rightarrow> jsval \<Rightarrow> jsval \<Rightarrow> jsval io" where
  "githubGetBranch rt owner repo branch =
     request_at rt [Lit ''/repos/'', Sub owner, Lit ''/'', Sub repo, Lit ''/branches/'', Sub branch]
       ''GET'' VNull"

definition githubCreateBranch :: "runtime \<Rightarrow> jsval \<Rightarrow> jsval \<Rightarrow> jsval \<Rightarrow> jsval \<Rightarrow> jsval io" where
  "githubCreateBranch rt owner repo branchName fromBranch =
     bind (githubGetBranch rt owner repo (dflt (VStr ''main'') fromBranch)) (\<lambda>sourceBranch.
     bind (read_prop sourceBranch ''commit'') (\<lambda>commit.
     bind (read_prop commit ''sha'') (\<lambda>sha.
     bind (lift (template rt [Lit ''/repos/'', Sub owner, Lit ''/'', Sub repo,
                              Lit ''/git/refs''])) (\<lambda>refs.
     bind (lift (template rt [Lit ''refs/heads/'', Sub branchName])) (\<lambda>ref.
       githubRequest rt refs ''POST'' (VObj [(''ref'', VStr ref), (''sha'', sha)]))))))"

definition githubDeleteBranch :: "runtime \<Rightarrow> jsval \<Rightarrow> jsval \<Rightarrow> jsval \<Rightarrow> jsval io" where
  "githubDeleteBranch rt owner repo branch =
     request_at rt [Lit ''/repos/'', Sub owner, Lit ''/'', Sub repo, Lit ''/git/refs/heads/'',
                    Sub branch] ''DELETE'' VNull"

definition githubListCommits :: "runtime \<Rightarrow> jsval \<Rightarrow> jsval \<Rightarrow> jsval \<Rightarrow> jsval \<Rightarrow> jsval io" where
  "githubListCommits rt owner repo branch perPage =
     request_at rt [Lit ''/repos/'', Sub owner, Lit ''/'', Sub repo, Lit ''/commits?sha='',
                    Sub (dflt (VStr ''main'') branch), Lit ''&per_page='',
                    Sub (dflt (VNum 30) perPage)] ''GET'' VNull"

definition githubGetCommit :: "runtime \<Rightarrow> jsval \<Rightarrow> jsval \<Rightarrow> jsval \<Rightarrow> jsval io" where
  "githubGetCommit rt owner repo sha =
     request_at rt [Lit ''/repos/'', Sub owner, Lit ''/'', Sub repo, Lit ''/commits/'', Sub sha]
       ''GET'' VNull"

definition githubCreatePullRequest ::
  "runtime \<Rightarrow> jsval \<Rightarrow> jsval \<Rightarrow> jsval \<Rightarrow> jsval \<Rightarrow> jsval \<Rightarrow> jsval \<Rightarrow> jsval \<Rightarrow> jsval io" where
  "githubCreatePullRequest rt owner repo title head base body draft =
     request_at rt [Lit ''/repos/'', Sub owner, Lit ''/'', Sub repo, Lit ''/pulls''] ''POST''
       (VObj [(''title'', title), (''head'', head), (''base'', base),
              (''body'', dflt (VStr []) body), (''draft'', dflt (VBool False) draft)])"

definition githubListPullRequests ::
  "runtime \<Rightarrow> jsval \<Rightarrow> jsval \<Rightarrow> jsval \<Rightarrow> jsval \<Rightarrow> jsval io" where
  "githubListPullRequests rt owner repo state perPage =
     request_at rt [Lit ''/repos/'', Sub owner, Lit ''/'', Sub repo, Lit ''/pulls?state='',
                    Sub (dflt (VStr ''open'') state), Lit ''&per_page='',
                    Sub (dflt (VNum 30) perPage)] ''GET'' VNull"

definition githubGetPullRequest :: "runtime \<Rightarrow> jsval \<Rightarrow> jsval \<Rightarrow> jsval \<Rightarrow> jsval io" where
  "githubGetPullRequest rt owner repo pullNumber =
     request_at rt [Lit ''/repos/'', Sub owner, Lit ''/'', Sub repo, Lit ''/pulls/'', Sub pullNumber]
       ''GET'' VNull"

definition githubMergePullRequest ::
  "runtime \<Rightarrow> jsval \<Rightarrow> jsval \<Rightarrow> jsval \<Rightarrow> jsval \<Rightarrow> jsval \<Rightarrow> jsval \<Rightarrow> jsval io" where
  "githubMergePullRequest rt owner repo pullNumber commitTitle commitMessage mergeMethod =
     request_at rt [Lit ''/repos/'', Sub owner, Lit ''/'', Sub repo, Lit ''/pulls/'', Sub pullNumber,
                    Lit ''/merge''] ''PUT''
       (VObj [(''commit_title'', dflt (VStr []) commitTitle),
              (''commit_message'', dflt (VStr []) commitMessage),
              (''merge_method'', dflt (VStr ''merge'') mergeMethod)])"

definition githubCreateIssue ::
  "runtime \<Rightarrow> jsval \<Rightarrow> jsval \<Rightarrow> jsval \<Rightarrow> jsval \<Rightarrow> jsval \<Rightarrow> jsval \<Rightarrow> jsval io" where
  "githubCreateIssue rt owner repo title body labels assignees =
     request_at rt [Lit ''/repos/'', Sub owner, Lit ''/'', Sub repo, Lit ''/issues''] ''POST''
       (VObj [(''title'', title), (''body'', dflt (VStr []) body),
              (''labels'', dflt (VArr []) labels), (''assignees'', dflt (VArr []) assignees)])"

definition githubListIssues :: "runtime \<Rightarrow> jsval \<Rightarrow> jsval \<Rightarrow> jsval \<Rightarrow> jsval \<Rightarrow> jsval io" where
  "githubListIssues rt owner repo state perPage =
     request_at rt [Lit ''/repos/'', Sub owner, Lit ''/'', Sub repo, Lit ''/issues?state='',
                    Sub (dflt (VStr ''open'') state), Lit ''&per_page='',
                    Sub (dflt (VNum 30) perPage)] ''GET'' VNull"

definition githubAddComment :: "runtime \<Rightarrow> jsval \<Rightarrow> jsval \<Rightarrow> jsval \<Rightarrow> jsval \<Rightarrow> jsval io" where
  "githubAddComment rt owner repo issueNumber body =
     request_at rt [Lit ''/repos/'', Sub owner, Lit ''/'', Sub repo, Lit ''/issues/'',
                    Sub issueNumber, Lit ''/comments''] ''POST'' (VObj [(''body'', body)])"

definition githubGetTree :: "runtime \<Rightarrow> jsval \<Rightarrow> jsval \<Rightarrow> jsval \<Rightarrow> jsval \<Rightarrow> jsval io" where
  "githubGetTree rt owner repo sha recursive =
     (let params = (if js_truthy (dflt (VBool True) recursive) then ''?recursive=1'' else []) in
      request_at rt [Lit ''/repos/'', Sub owner, Lit ''/'', Sub repo, Lit ''/git/trees/'',
                     Sub (dflt (VStr ''main'') sha), Sub (VStr params)] ''GET'' VNull)"

definition githubListContents :: "runtime \<Rightarrow> jsval \<Rightarrow> jsval \<Rightarrow> jsval \<Rightarrow> jsval \<Rightarrow> jsval io" where
  "githubListContents rt owner repo path' ref' =
     (let path = dflt (VStr []) path'; ref = dflt (VStr ''main'') ref' in
      request_at rt
        (if js_truthy path
         then [Lit ''/repos/'', Sub owner, Lit ''/'', Sub repo, Lit ''/contents/'', Sub path,
               Lit ''?ref='', Sub ref]
         else [Lit ''/repos/'', Sub owner, Lit ''/'', Sub repo, Lit ''/contents?ref='', Sub ref])
        ''GET'' VNull)"

text \<open>
  The method call \<^verbatim>\<open>perPage.toString()\<close>: there is no method to call on \<^verbatim>\<open>null\<close>, and an
  own \<^verbatim>\<open>toString\<close> property of a parsed object is not a function.
\<close>

definition call_toString :: "runtime \<Rightarrow> jsval \<Rightarrow> js_error + string" where
  "call_toString rt v =
     (case v of
        Undefined \<Rightarrow> Inl (TypeError ''Cannot read properties of undefined (reading 'toString')'')
      | VNull \<Rightarrow> Inl (TypeError ''Cannot read properties of null (reading 'toString')'')
      | VObj ps \<Rightarrow>
          (if ''toString'' \<in> fst ` set ps then Inl (TypeError ''perPage.toString is not a function'')
           else to_string rt v)
      | _ \<Rightarrow> to_string rt v)"

definition githubSearchRepositories ::
  "runtime \<Rightarrow> jsval \<Rightarrow> jsval \<Rightarrow> jsval \<Rightarrow> jsval \<Rightarrow> jsval io" where
  "githubSearchRepositories rt query sort' order' perPage =
     bind (lift (call_toString rt (dflt (VNum 10) perPage))) (\<lambda>per_page.
     bind (lift (to_string rt query)) (\<lambda>q.
     bind (lift (to_string rt (dflt (VStr ''stars'') sort'))) (\<lambda>s.
     bind (lift (to_string rt (dflt (VStr ''desc'') order'))) (\<lambda>ord.
       githubRequest rt
         (''/search/repositories?'' @
            rt_URLSearchParams rt [(''q'', q), (''sort'', s), (''order'', ord), (''per_page'', per_page)])
         ''GET'' VNull))))"

definition githubSearchCode :: "runtime \<Rightarrow> jsval \<Rightarrow> jsval \<Rightarrow> jsval io" where
  "githubSearchCode rt query perPage =
     bind (lift (call_toString rt (dflt (VNum 30) perPage))) (\<lambda>per_page.
     bind (lift (to_string rt query)) (\<lambda>q.
       githubRequest rt
         (''/search/code?'' @ rt_URLSearchParams rt [(''q'', q), (''per_page'', per_page)])
         ''GET'' VNull))"

section \<open>Logging utilities: \<^verbatim>\<open>logToolCall\<close> and \<^verbatim>\<open>logToolResult\<close>\<close>

text \<open>
  \<^verbatim>\<open>logToolCall(toolName, args, sessionId = 'unknown')\<close>.  The timestamp is taken and the
  arguments are sanitized before the first line is written.  In the template literal an
  \<^verbatim>\<open>undefined\<close> result of \<^verbatim>\<open>JSON.stringify\<close> prints as \<^verbatim>\<open>undefined\<close>.
\<close>

definition logToolCall :: "runtime \<Rightarrow> string \<Rightarrow> obj option \<Rightarrow> string \<Rightarrow> unit io" where
  "logToolCall rt toolName args sessionId =
     bind Date_now (\<lambda>t.
     bind (return (rt_toISOString rt t)) (\<lambda>timestamp.
     bind (lift (sanitizeArgs rt args)) (\<lambda>sanitizedArgs.
     bind (console_log Rule_heavy) (\<lambda>_.
     bind (console_log (TOOL_CALL toolName)) (\<lambda>_.
     bind (console_log Rule_light) (\<lambda>_.
     bind (console_log (Time timestamp)) (\<lambda>_.
     bind (console_log (Session sessionId)) (\<lambda>_.
       console_log (Arguments (case sanitizedArgs of
                                 None \<Rightarrow> ''undefined''
                               | Some ps \<Rightarrow> rt_JSON_stringify rt 2 (VObj ps)))))))))))"

text \<open>
  \<^verbatim>\<open>logToolResult(toolName, result, duration, isError = false)\<close>.  Without a result to
  serialise, \<^verbatim>\<open>JSON.stringify(result).substring\<close> throws after two lines are written.
\<close>

definition logToolResult :: "runtime \<Rightarrow> string \<Rightarrow> jsval \<Rightarrow> int \<Rightarrow> bool \<Rightarrow> unit io" where
  "logToolResult rt toolName result duration isError =
     bind (console_log Rule_light) (\<lambda>_.
     bind (console_log (Result isError duration)) (\<lambda>_.
     bind (if isError
           then bind (lift (to_string rt result)) (\<lambda>s. console_log (Error_text s))
           else (case JSON_stringify rt 0 result of
                   None \<Rightarrow>
                     throw (TypeError
                       ''Cannot read properties of undefined (reading 'substring')'')
                 | Some s \<Rightarrow>
                     (let preview = take 500 s in
                      console_log (Response (preview @ (if 500 \<le> length preview then ''...'' else []))))))
       (\<lambda>_. console_log Rule_heavy)))"

section \<open>The MCP server: the tool catalog and the call handler\<close>

text \<open>The names the \<^verbatim>\<open>ListToolsRequestSchema\<close> handler lists, in its order.\<close>

definition tool_names :: "string list" where
  "tool_names =
     [''github_verify_token'', ''github_get_user'', ''github_list_repositories'',
      ''github_get_repository'', ''github_create_repository'', ''github_delete_repository'',
      ''github_get_file_contents'', ''github_create_or_update_file'', ''github_delete_file'',
      ''github_push_files'', ''github_list_branches'', ''github_create_branch'',
      ''github_delete_branch'', ''github_list_commits'', ''github_get_commit'',
      ''github_create_pull_request'', ''github_list_pull_requests'', ''github_get_pull_request'',
      ''github_merge_pull_request'', ''github_create_issue'', ''github_list_issues'',
      ''github_add_comment'', ''github_get_tree'', ''github_list_contents'',
      ''github_search_repositories'', ''github_search_code'']"

text \<open>The value of \<^verbatim>\<open>args\<close>, and the read \<^verbatim>\<open>args.k\<close> followed by the rest of the call.\<close>

definition args_value :: "obj option \<Rightarrow> jsval" where
  "args_value args = (case args of None \<Rightarrow> Undefined | Some ps \<Rightarrow> VObj ps)"

definition arg :: "obj option \<Rightarrow> string \<Rightarrow> (jsval \<Rightarrow> 'a io) \<Rightarrow> 'a io" where
  "arg args k f = bind (read_prop (args_value args) k) f"

text \<open>The \<^verbatim>\<open>switch (name)\<close> of the call handler.\<close>

definition dispatch :: "runtime \<Rightarrow> string \<Rightarrow> obj option \<Rightarrow> jsval io" where
  "dispatch rt name args =
    (if name = ''github_verify_token'' then githubVerifyToken rt
     else if name = ''github_get_user'' then githubGetUser rt
     else if name = ''github_list_repositories'' then
       arg args ''sort'' (\<lambda>a. arg args ''perPage'' (\<lambda>b. githubListRepositories rt a b))
     else if name = ''github_get_repository'' then
       arg args ''owner'' (\<lambda>a. arg args ''repo'' (\<lambda>b. githubGetRepository rt a b))
     else if name = ''github_create_repository'' then
       arg args ''name'' (\<lambda>a. arg args ''description'' (\<lambda>b. arg args ''isPrivate'' (\<lambda>c.
       arg args ''autoInit'' (\<lambda>d. githubCreateRepository rt a b c d))))
     else if name = ''github_delete_repository'' then
       arg args ''owner'' (\<lambda>a. arg args ''repo'' (\<lambda>b. githubDeleteRepository rt a b))
     else if name = ''github_get_file_contents'' then
       arg args ''owner'' (\<lambda>a. arg args ''repo'' (\<lambda>b. arg args ''path'' (\<lambda>c.
       arg args ''ref'' (\<lambda>d. githubGetFileContents rt a b c d))))
     else if name = ''github_create_or_update_file'' then
       arg args ''owner'' (\<lambda>a. arg args ''repo'' (\<lambda>b. arg args ''path'' (\<lambda>c.
       arg args ''content'' (\<lambda>d. arg args ''message'' (\<lambda>e. arg args ''branch'' (\<lambda>f.
       arg args ''sha'' (\<lambda>g. githubCreateOrUpdateFile rt a b c d e f g)))))))
     else if name = ''github_delete_file'' then
       arg args ''owner'' (\<lambda>a. arg args ''repo'' (\<lambda>b. arg args ''path'' (\<lambda>c.
       arg args ''message'' (\<lambda>d. arg args ''sha'' (\<lambda>e. arg args ''branch'' (\<lambda>f.
         githubDeleteFile rt a b c d e f))))))
     else if name = ''github_push_files'' then
       arg args ''owner'' (\<lambda>a. arg args ''repo'' (\<lambda>b. arg args ''files'' (\<lambda>c.
       arg args ''message'' (\<lambda>d. arg args ''branch'' (\<lambda>e. githubPushFiles rt a b c d e)))))
     else if name = ''github_list_branches'' then
       arg args ''owner'' (\<lambda>a. arg args ''repo'' (\<lambda>b. githubListBranches rt a b))
     else if name = ''github_create_branch'' then
       arg args ''owner'' (\<lambda>a. arg args ''repo'' (\<lambda>b. arg args ''branchName'' (\<lambda>c.
       arg args ''fromBranch'' (\<lambda>d. githubCreateBranch rt a b c d))))
     else if name = ''github_delete_branch'' then
       arg args ''owner'' (\<lambda>a. arg args ''repo'' (\<lambda>b. arg args ''branch'' (\<lambda>c.
         githubDeleteBranch rt a b c)))
     else if name = ''github_list_commits'' then
       arg args ''owner'' (\<lambda>a. arg args ''repo'' (\<lambda>b. arg args ''branch'' (\<lambda>c.
       arg args ''perPage'' (\<lambda>d. githubListCommits rt a b c d))))
     else if name = ''github_get_commit'' then
       arg args ''owner'' (\<lambda>a. arg args ''repo'' (\<lambda>b. arg args ''sha'' (\<lambda>c.
         githubGetCommit rt a b c)))
     else if name = ''github_create_pull_request'' then
       arg args ''owner'' (\<lambda>a. arg args ''repo'' (\<lambda>b. arg args ''title'' (\<lambda>c.
       arg args ''head'' (\<lambda>d. arg args ''base'' (\<lambda>e. arg args ''body'' (\<lambda>f.
       arg args ''draft'' (\<lambda>g. githubCreatePullRequest rt a b c d e f g)))))))
     else if name = ''github_list_pull_requests'' then
       arg args ''owner'' (\<lambda>a. arg args ''repo'' (\<lambda>b. arg args ''state'' (\<lambda>c.
       arg args ''perPage'' (\<lambda>d. githubListPullRequests rt a b c d))))
     else if name = ''github_get_pull_request'' then
       arg args ''owner'' (\<lambda>a. arg args ''repo'' (\<lambda>b. arg args ''pullNumber'' (\<lambda>c.
         githubGetPullRequest rt a b c)))
     else if name = ''github_merge_pull_request'' then
       arg args ''owner'' (\<lambda>a. arg args ''repo'' (\<lambda>b. arg args ''pullNumber'' (\<lambda>c.
       arg args ''commitTitle'' (\<lambda>d. arg args ''commitMessage'' (\<lambda>e.
       arg args ''mergeMethod'' (\<lambda>f. githubMergePullRequest rt a b c d e f))))))
     else if name = ''github_create_issue'' then
       arg args ''owner'' (\<lambda>a. arg args ''repo'' (\<lambda>b. arg args ''title'' (\<lambda>c.
       arg args ''body'' (\<lambda>d. arg args ''labels'' (\<lambda>e. arg args ''assignees'' (\<lambda>f.
         githubCreateIssue rt a b c d e f))))))
     else if name = ''github_list_issues'' then
       arg args ''owner'' (\<lambda>a. arg args ''repo'' (\<lambda>b. arg args ''state'' (\<lambda>c.
       arg args ''perPage'' (\<lambda>d. githubListIssues rt a b c d))))
     else if name = ''github_add_comment'' then
       arg args ''owner'' (\<lambda>a. arg args ''repo'' (\<lambda>b. arg args ''issueNumber'' (\<lambda>c.
       arg args ''body'' (\<lambda>d. githubAddComment rt a b c d))))
     else if name = ''github_get_tree'' then
       arg args ''owner'' (\<lambda>a. arg args ''repo'' (\<lambda>b. arg args ''sha'' (\<lambda>c.
       arg args ''recursive'' (\<lambda>d. githubGetTree rt a b c d))))
     else if name = ''github_list_contents'' then
       arg args ''owner'' (\<lambda>a. arg args ''repo'' (\<lambda>b. arg args ''path'' (\<lambda>c.
       arg args ''ref'' (\<lambda>d. githubListContents rt a b c d))))
     else if name = ''github_search_repositories'' then
       arg args ''query'' (\<lambda>a. arg args ''sort'' (\<lambda>b. arg args ''order'' (\<lambda>c.
       arg args ''perPage'' (\<lambda>d. githubSearchRepositories rt a b c d))))
     else if name = ''github_search_code'' then
       arg args ''query'' (\<lambda>a. arg args ''perPage'' (\<lambda>b. githubSearchCode rt a b))
     else throw (Error (''Unknown tool: '' @ name)))"

text \<open>
  The envelope the handler returns: \<^verbatim>\<open>{ content: [{ type: 'text', text }], isError }\<close>.
  A property the object literal does not have is \<open>None\<close>.
\<close>

record content_item =
  item_type :: string
  item_text :: "string option"

record envelope =
  content :: "content_item list"
  isError :: "bool option"

record call_request =
  name :: string
  arguments :: "obj option"

text \<open>
  The \<^verbatim>\<open>CallToolRequestSchema\<close> handler.  It calls \<^verbatim>\<open>logToolCall(name, args)\<close> with two
  arguments, so the third takes its default, and it calls it before the \<^verbatim>\<open>try\<close>.
\<close>

definition CallToolRequestHandler :: "runtime \<Rightarrow> call_request \<Rightarrow> envelope io" where
  "CallToolRequestHandler rt request =
     bind Date_now (\<lambda>startTime.
     bind (logToolCall rt (name request) (arguments request) ''unknown'') (\<lambda>_.
       try_catch
         (bind (dispatch rt (name request) (arguments request)) (\<lambda>result.
          bind Date_now (\<lambda>t.
          bind (logToolResult rt (name request) result (t - startTime) False) (\<lambda>_.
            return \<lparr>content = [\<lparr>item_type = ''text'',
                                 item_text = JSON_stringify rt 2 result\<rparr>],
                    isError = None\<rparr>))))
         (\<lambda>error.
            bind Date_now (\<lambda>t.
            bind (logToolResult rt (name request) (VStr (error_message error))
                    (t - startTime) True) (\<lambda>_.
              return \<lparr>content = [\<lparr>item_type = ''text'',
                                   item_text = Some (''Error: '' @ error_message error)\<rparr>],
                      isError = Some True\<rparr>)))))"

section \<open>Streamable HTTP transport: the session table\<close>

text \<open>
  A session is a transport and a server, two objects known by their identities.  The
  application holds the table \<^verbatim>\<open>sessions\<close>, the next unused object identity and what
  \<^verbatim>\<open>console.error\<close> wrote.  With it goes the generator behind \<^verbatim>\<open>crypto.randomUUID\<close>: the
  value its \<open>n\<close>-th call returns, and the number of calls made so far.
\<close>

record session =
  transport :: nat
  server :: nat

record app =
  sessions :: "string \<Rightarrow> session option"
  next_object :: nat
  console_error :: "js_error list"
  uuid_source :: "nat \<Rightarrow> string"
  uuid_calls :: nat

definition randomUUID :: "app \<Rightarrow> string \<times> app" where
  "randomUUID a = (uuid_source a (uuid_calls a), a\<lparr>uuid_calls := Suc (uuid_calls a)\<rparr>)"

text \<open>
  What the protocol library does during one \<^verbatim>\<open>POST /mcp\<close>: whether \<^verbatim>\<open>server.connect\<close>
  and \<^verbatim>\<open>transport.handleRequest\<close> throw, and whether the transport calls
  \<^verbatim>\<open>onsessioninitialized\<close> while it handles the request.
\<close>

record post_env =
  connect :: "js_error option"
  handleRequest :: "js_error option"
  initializes :: bool

text \<open>
  The response as far as the handler decides it: the \<^verbatim>\<open>Mcp-Session-Id\<close> header, the
  session whose transport handled the request, and the message of the 500 response.
\<close>

record post_response =
  Mcp_Session_Id :: "string option"
  handled_by :: "session option"
  error_500 :: "string option"

text \<open>
  From \<^verbatim>\<open>res.setHeader\<close> on.  The callback \<^verbatim>\<open>onsessioninitialized\<close> of a transport stores
  the pair it was created with under the identifier it was created with.
\<close>

definition respond :: "string \<Rightarrow> session \<Rightarrow> post_env \<Rightarrow> app \<Rightarrow> post_response \<times> app" where
  "respond sessionId s env a =
     (let a1 = (if initializes env then a\<lparr>sessions := (sessions a)(sessionId \<mapsto> s)\<rparr> else a)
      in case handleRequest env of
           None \<Rightarrow>
             (\<lparr>Mcp_Session_Id = Some sessionId, handled_by = Some s, error_500 = None\<rparr>, a1)
         | Some e \<Rightarrow>
             (\<lparr>Mcp_Session_Id = Some sessionId, handled_by = Some s,
               error_500 = Some (error_message e)\<rparr>,
              a1\<lparr>console_error := console_error a1 @ [e]\<rparr>))"

text \<open>The \<^verbatim>\<open>else\<close> branch of \<^verbatim>\<open>app.post('/mcp')\<close>: a new identifier, server and transport.\<close>

definition create_session :: "post_env \<Rightarrow> app \<Rightarrow> post_response \<times> app" where
  "create_session env a =
     (let sessionId = fst (randomUUID a);
          s = \<lparr>transport = Suc (next_object a), server = next_object a\<rparr>;
          a1 = (snd (randomUUID a))\<lparr>next_object := next_object a + 2\<rparr>
      in case connect env of
           Some e \<Rightarrow>
             (\<lparr>Mcp_Session_Id = None, handled_by = None, error_500 = Some (error_message e)\<rparr>,
              a1\<lparr>console_error := console_error a1 @ [e]\<rparr>)
         | None \<Rightarrow> respond sessionId s env (a1\<lparr>sessions := (sessions a1)(sessionId \<mapsto> s)\<rparr>))"

text \<open>
  \<^verbatim>\<open>app.post('/mcp')\<close>.  The header of the request is absent or a string; the test
  \<^verbatim>\<open>sessionId && sessions.has(sessionId)\<close> fails for the empty string.
\<close>

definition post_mcp :: "string option \<Rightarrow> post_env \<Rightarrow> app \<Rightarrow> post_response \<times> app" where
  "post_mcp header env a =
     (case header of
        None \<Rightarrow> create_session env a
      | Some sessionId \<Rightarrow>
          (if sessionId = [] then create_session env a
           else (case sessions a sessionId of
                   None \<Rightarrow> create_session env a
                 | Some s \<Rightarrow> respond sessionId s env a)))"

text \<open>\<^verbatim>\<open>app.delete('/mcp')\<close>: the status and the body of the response, and the table.\<close>

definition delete_mcp :: "string option \<Rightarrow> app \<Rightarrow> (nat \<times> jsval) \<times> app" where
  "delete_mcp header a =
     (case header of
        None \<Rightarrow> ((404, VObj [(''error'', VStr ''Session not found'')]), a)
      | Some sessionId \<Rightarrow>
          (if sessionId = [] then ((404, VObj [(''error'', VStr ''Session not found'')]), a)
           else (case sessions a sessionId of
                   None \<Rightarrow> ((404, VObj [(''error'', VStr ''Session not found'')]), a)
                 | Some s \<Rightarrow>
                     ((200, VObj [(''success'', VBool True)]),
                      a\<lparr>sessions := (sessions a)(sessionId := None)\<rparr>))))"

section \<open>Sample inputs\<close>

text \<open>
  A runtime, a world and an application state for the examples.  The built-ins of the
  sample runtime are stand-ins that answer with a fixed text.
\<close>

definition sample_runtime :: runtime where
  "sample_runtime =
     \<lparr>rt_StringToNumber = (\<lambda>s. NaN),
      rt_NumberToString = (\<lambda>q. ''<number>''),
      rt_JSON_stringify = (\<lambda>indent v. ''<json>''),
      rt_toISOString = (\<lambda>ms. ''<timestamp>''),
      rt_Buffer_base64 = (\<lambda>v. Inr ''<base64>''),
      rt_Buffer_decode = (\<lambda>v. Inr ''<decoded>''),
      rt_URLSearchParams = (\<lambda>ps. ''<params>'')\<rparr>"

text \<open>A world whose upstream answers every request with the given status and body.\<close>

definition sample_world :: "string option \<Rightarrow> nat \<Rightarrow> js_error + json \<Rightarrow> world" where
  "sample_world token code answer =
     \<lparr>GITHUB_TOKEN = token,
      upstream = (\<lambda>history req. Inr \<lparr>status = code, statusText = ''status text'', json_body = answer\<rparr>),
      issued = [],
      console = [],
      clock = (\<lambda>n. 1000 + 5 * int n),
      clock_reads = 0,
      arrives_first = (\<lambda>n. 0)\<rparr>"

text \<open>
  A generator, and the application after one session was created: one identifier drawn,
  two objects allocated.
\<close>

definition sample_uuids :: "nat \<Rightarrow> string" where
  "sample_uuids n =
     (if n = 0 then ''1b4e28ba-2fa1-4d3b-a3f5-ef19b5a7633b''
      else if n = 1 then ''6ec0bd7f-11c0-43da-975e-2a8ad9ebae0b''
      else ''9f1c2a77-5d0e-4c58-8b3a-0c6f4de2a911'')"

definition sample_app :: app where
  "sample_app =
     \<lparr>sessions = [''1b4e28ba-2fa1-4d3b-a3f5-ef19b5a7633b'' \<mapsto> \<lparr>transport = 1, server = 0\<rparr>],
      next_object = 2,
      console_error = [],
      uuid_source = sample_uuids,
      uuid_calls = 1\<rparr>"

definition sample_env :: post_env where
  "sample_env = \<lparr>connect = None, handleRequest = None, initializes = True\<rparr>"

text \<open>Arguments whose \<^verbatim>\<open>content.length\<close> cannot be compared with a number.\<close>

definition hostile_args :: obj where
  "hostile_args = [(''content'', VObj [(''length'', VObj [(''toString'', VNum 0)])])]"

section \<open>Auxiliary notions\<close>

text \<open>A computation that never returns \<^verbatim>\<open>undefined\<close>.\<close>

definition yields_defined :: "jsval io \<Rightarrow> bool" where
  "yields_defined m = (\<forall>w r w'. m w = (Inr r, w') \<longrightarrow> r \<noteq> Undefined)"

text \<open>A step that writes nothing to the console.\<close>

definition keeps_console :: "(world \<Rightarrow> 'a \<times> world) \<Rightarrow> bool" where
  "keeps_console m = (\<forall>w. console (snd (m w)) = console w)"

text \<open>
  The form of the values \<^verbatim>\<open>crypto.randomUUID()\<close> returns: hexadecimal digits in groups of 8,
  4, 4, 4 and 12, with a hyphen between the groups.
\<close>

definition uuid_shape :: "string \<Rightarrow> string" where
  "uuid_shape s =
     map (\<lambda>c. if c = CHR ''-'' then CHR ''-''
              else if c \<in> set ''0123456789abcdef'' then CHR ''x'' else CHR ''?'') s"

definition is_uuid :: "string \<Rightarrow> bool" where
  "is_uuid s = (uuid_shape s = ''xxxxxxxx-xxxx-xxxx-xxxx-xxxxxxxxxxxx'')"

text \<open>The identifiers \<^verbatim>\<open>randomUUID()\<close> has returned so far.\<close>

definition drawn :: "app \<Rightarrow> string list" where
  "drawn a = map (uuid_source a) [0..<uuid_calls a]"

text \<open>
  What \<^verbatim>\<open>crypto.randomUUID()\<close> promises of its next call: a UUID, and one it has not
  returned before.
\<close>

definition randomUUID_contract :: "app \<Rightarrow> bool" where
  "randomUUID_contract a =
     (is_uuid (uuid_source a (uuid_calls a)) \<and> uuid_source a (uuid_calls a) \<notin> set (drawn a))"

text \<open>
  What holds of every state the application reaches: each identifier of the table is a
  UUID that \<^verbatim>\<open>randomUUID()\<close> returned, and the objects of its sessions were allocated
  before.
\<close>

definition wf_sessions :: "app \<Rightarrow> bool" where
  "wf_sessions a =
     (\<forall>sessionId s. sessions a sessionId = Some s \<longrightarrow>
        is_uuid sessionId \<and> sessionId \<in> set (drawn a)
        \<and> transport s < next_object a \<and> server s < next_object a)"

text \<open>\<^verbatim>\<open>const sessions = new Map()\<close>, before any request:\<close>

definition initial_app :: "(nat \<Rightarrow> string) \<Rightarrow> app" where
  "initial_app source =
     \<lparr>sessions = Map.empty, next_object = 0, console_error = [],
      uuid_source = source, uuid_calls = 0\<rparr>"

section \<open>Properties of \<^verbatim>\<open>sanitizeArgs\<close>\<close>

lemma ebind_Inr_iff: "ebind m f = Inr y \<longleftrightarrow> (\<exists>x. m = Inr x \<and> f x = Inr y)"
  by (cases m) auto

lemma field_set_prop: "field (set_prop k v ps) k' = (if k' = k then v else field ps k')"
  by (induction ps) (auto simp: field_def)

lemma field_redact:
  "field (redact k ps) k' =
     (if k' = k \<and> js_truthy (field ps k) then VStr ''[REDACTED]'' else field ps k')"
  by (simp add: redact_def field_set_prop)

lemma content_too_long_string:
  "content_too_long rt (VStr c) = Inr (200 < length c)"
  by (cases "c = []") (auto simp: content_too_long_def js_gt_def)

lemma length_indicator_string:
  "length_indicator rt (VStr c) =
     Inr (VStr (''['' @ number_to_string rt (of_nat (length c)) @ '' chars]''))"
  by (simp add: length_indicator_def)

lemma sanitizeArgs_Some:
  "sanitizeArgs rt (Some ps) = Inr r \<Longrightarrow>
     \<exists>long s0. content_too_long rt (field ps ''content'') = Inr long
       \<and> (if long then \<exists>c. length_indicator rt (field ps ''content'') = Inr c \<and> s0 = set_prop ''content'' c ps
           else s0 = ps)
       \<and> r = Some (redact ''password'' (redact ''token'' s0))"
  by (auto simp: sanitizeArgs_def ebind_Inr_iff split: if_splits)

lemma differ_only_at_field:
  "differ_only_at k a b \<Longrightarrow> k' \<noteq> k \<Longrightarrow> field a k' = field b k'"
  unfolding differ_only_at_def
  by (induction a b rule: list_all2_induct) (auto simp: field_def)

lemma differ_only_at_set_prop:
  "differ_only_at k a b \<Longrightarrow> differ_only_at k (set_prop k' v a) (set_prop k' v b)"
  unfolding differ_only_at_def
  by (induction a b rule: list_all2_induct) auto

lemma differ_only_at_absent:
  "differ_only_at k a b \<Longrightarrow> k \<notin> fst ` set a \<Longrightarrow> a = b"
  unfolding differ_only_at_def
  by (induction a b rule: list_all2_induct) (auto simp: prod_eq_iff)

lemma differ_only_at_assign:
  "differ_only_at k a b \<Longrightarrow> distinct (map fst a) \<Longrightarrow> set_prop k v a = set_prop k v b"
proof (induction a arbitrary: b)
  case Nil
  then show ?case by (simp add: differ_only_at_def)
next
  case (Cons p a)
  from Cons.prems(1) obtain q b' where b: "b = q # b'" and pq: "fst p = fst q"
    and v: "fst p = k \<or> snd p = snd q" and rest: "differ_only_at k a b'"
    by (auto simp: differ_only_at_def list_all2_Cons1)
  show ?case
  proof (cases "fst p = k")
    case True
    with Cons.prems(2) have "k \<notin> fst ` set a" by auto
    with rest have "a = b'" by (rule differ_only_at_absent)
    with True b pq show ?thesis by simp
  next
    case False
    with v pq have "p = q" by (simp add: prod_eq_iff)
    moreover from Cons.prems(2) have "distinct (map fst a)" by simp
    ultimately show ?thesis using False b Cons.IH [OF rest] by simp
  qed
qed

lemma distinct_set_prop:
  "distinct (map fst a) \<Longrightarrow> distinct (map fst (set_prop k v a))"
proof (induction a)
  case Nil then show ?case by simp
next
  case (Cons p a)
  have keys: "fst ` set (set_prop k v a) = insert k (fst ` set a)" for a
    by (induction a) auto
  from Cons show ?case by (auto simp: keys)
qed

lemma redact_agree:
  assumes "differ_only_at k a b" "distinct (map fst a)"
    and "js_truthy (field a k)" "js_truthy (field b k)"
  shows "redact k a = redact k b"
  using assms by (simp add: redact_def differ_only_at_assign)

lemma redact_other:
  assumes "differ_only_at k a b" "k' \<noteq> k"
  shows "differ_only_at k (redact k' a) (redact k' b)"
  using assms by (simp add: redact_def differ_only_at_field differ_only_at_set_prop)

lemma distinct_redact: "distinct (map fst a) \<Longrightarrow> distinct (map fst (redact k a))"
  by (simp add: redact_def distinct_set_prop)

lemma sanitizeArgs_agree:
  assumes k: "k = ''token'' \<or> k = ''password''"
    and d: "differ_only_at k a b" and dist: "distinct (map fst a)"
    and ta: "js_truthy (field a k)" and tb: "js_truthy (field b k)"
  shows "sanitizeArgs rt (Some a) = sanitizeArgs rt (Some b)"
proof -
  from k have kc: "''content'' \<noteq> k" by auto
  have c: "field a ''content'' = field b ''content''"
    using d kc by (rule differ_only_at_field)
  have step: "redact ''password'' (redact ''token'' a') = redact ''password'' (redact ''token'' b')"
    if d': "differ_only_at k a' b'" and dist': "distinct (map fst a')"
      and ta': "js_truthy (field a' k)" and tb': "js_truthy (field b' k)" for a' b'
  proof (cases "k = ''token''")
    case True
    then show ?thesis using redact_agree [OF d' dist' ta' tb'] by simp
  next
    case False
    with k have kp: "k = ''password''" by simp
    have 1: "differ_only_at k (redact ''token'' a') (redact ''token'' b')"
      using d' by (rule redact_other) (simp add: kp)
    have 2: "distinct (map fst (redact ''token'' a'))"
      using dist' by (rule distinct_redact)
    have 3: "js_truthy (field (redact ''token'' a') k)" "js_truthy (field (redact ''token'' b') k)"
      using ta' tb' by (simp_all add: field_redact kp)
    show ?thesis using redact_agree [OF 1 2 3] kp by simp
  qed
  have plain: "redact ''password'' (redact ''token'' a) = redact ''password'' (redact ''token'' b)"
    using d dist ta tb by (rule step)
  have changed: "redact ''password'' (redact ''token'' (set_prop ''content'' v a))
      = redact ''password'' (redact ''token'' (set_prop ''content'' v b))" for v
    using differ_only_at_set_prop [OF d] distinct_set_prop [OF dist] ta tb kc
    by (intro step) (simp_all add: field_set_prop)
  show ?thesis
    by (cases "content_too_long rt (field b ''content'')";
        cases "length_indicator rt (field b ''content'')")
       (simp_all add: sanitizeArgs_def c plain changed)
qed

text \<open>
  Claim C4, as the code has it.  Whenever \<^verbatim>\<open>sanitizeArgs\<close> returns a record for an argument
  object: a truthy \<^verbatim>\<open>token\<close> or \<^verbatim>\<open>password\<close> is replaced by the marker \<^verbatim>\<open>[REDACTED]\<close>,
  while a falsy one (the empty string, \<^verbatim>\<open>0\<close>, \<^verbatim>\<open>false\<close>, \<^verbatim>\<open>null\<close>) is left as it is; a
  \<^verbatim>\<open>content\<close> whose \<^verbatim>\<open>length\<close> exceeds 200 (in particular a string of more than 200
  units) is replaced by the length indicator and any other \<^verbatim>\<open>content\<close> is kept; every
  other field keeps its value.  Two argument objects that differ only in the value of
  \<^verbatim>\<open>token\<close> (or only in that of \<^verbatim>\<open>password\<close>), truthy in both, have the same sanitized
  record.
\<close>

theorem sanitizeArgs_redaction:
  "(sanitizeArgs rt (Some args) = Inr r \<longrightarrow>
      (\<exists>s. r = Some s
         \<and> field s ''token'' =
             (if js_truthy (field args ''token'') then VStr ''[REDACTED]'' else field args ''token'')
         \<and> field s ''password'' =
             (if js_truthy (field args ''password'') then VStr ''[REDACTED]''
              else field args ''password'')
         \<and> (content_too_long rt (field args ''content'') = Inr True \<longrightarrow>
              length_indicator rt (field args ''content'') = Inr (field s ''content''))
         \<and> (\<forall>c. field args ''content'' = VStr c \<and> 200 < length c \<longrightarrow>
              field s ''content'' =
                VStr (''['' @ number_to_string rt (of_nat (length c)) @ '' chars]''))
         \<and> (content_too_long rt (field args ''content'') = Inr False \<longrightarrow>
              field s ''content'' = field args ''content'')
         \<and> (\<forall>k. k \<noteq> ''content'' \<and> k \<noteq> ''token'' \<and> k \<noteq> ''password'' \<longrightarrow>
              field s k = field args k)))
   \<and> ((k = ''token'' \<or> k = ''password'') \<and> differ_only_at k a b \<and> distinct (map fst a)
        \<and> js_truthy (field a k) \<and> js_truthy (field b k) \<longrightarrow>
      sanitizeArgs rt (Some a) = sanitizeArgs rt (Some b))"
proof (intro conjI impI)
  assume "sanitizeArgs rt (Some args) = Inr r"
  from sanitizeArgs_Some [OF this] obtain long s0 where
    long: "content_too_long rt (field args ''content'') = Inr long"
    and s0: "if long then \<exists>c. length_indicator rt (field args ''content'') = Inr c
                 \<and> s0 = set_prop ''content'' c args else s0 = args"
    and r: "r = Some (redact ''password'' (redact ''token'' s0))"
    by blast
  have other: "field s0 k = field args k" if "k \<noteq> ''content''" for k
    using s0 that by (auto simp: field_set_prop split: if_splits)
  have str: "field s0 ''content'' = VStr (''['' @ number_to_string rt (of_nat (length c)) @ '' chars]'')"
    if "field args ''content'' = VStr c" "200 < length c" for c
    using s0 long that by (auto simp: content_too_long_string length_indicator_string field_set_prop)
  have gen: "length_indicator rt (field args ''content'') = Inr (field s0 ''content'')"
    if "long" using s0 that by (auto simp: field_set_prop)
  have same: "field s0 ''content'' = field args ''content''" if "\<not> long"
    using s0 that by simp
  show "\<exists>s. r = Some s
         \<and> field s ''token'' =
             (if js_truthy (field args ''token'') then VStr ''[REDACTED]'' else field args ''token'')
         \<and> field s ''password'' =
             (if js_truthy (field args ''password'') then VStr ''[REDACTED]''
              else field args ''password'')
         \<and> (content_too_long rt (field args ''content'') = Inr True \<longrightarrow>
              length_indicator rt (field args ''content'') = Inr (field s ''content''))
         \<and> (\<forall>c. field args ''content'' = VStr c \<and> 200 < length c \<longrightarrow>
              field s ''content'' =
                VStr (''['' @ number_to_string rt (of_nat (length c)) @ '' chars]''))
         \<and> (content_too_long rt (field args ''content'') = Inr False \<longrightarrow>
              field s ''content'' = field args ''content'')
         \<and> (\<forall>k. k \<noteq> ''content'' \<and> k \<noteq> ''token'' \<and> k \<noteq> ''password'' \<longrightarrow>
              field s k = field args k)"
    using r long other str gen same by (simp add: field_redact)
next
  assume "(k = ''token'' \<or> k = ''password'') \<and> differ_only_at k a b \<and> distinct (map fst a)
        \<and> js_truthy (field a k) \<and> js_truthy (field b k)"
  then show "sanitizeArgs rt (Some a) = sanitizeArgs rt (Some b)"
    by (intro sanitizeArgs_agree [of k]) simp_all
qed

theorem sanitizeArgs_redaction_witness:
  "sanitizeArgs sample_runtime
      (Some [(''owner'', VStr ''octo''), (''token'', VStr ''ghp_1''), (''content'', VStr (replicate 201 CHR ''x''))])
     = Inr (Some [(''owner'', VStr ''octo''), (''token'', VStr ''[REDACTED]''),
                  (''content'', VStr ''[201 chars]'')])
   \<and> differ_only_at ''token''
        [(''owner'', VStr ''octo''), (''token'', VStr ''ghp_1'')]
        [(''owner'', VStr ''octo''), (''token'', VStr ''ghp_2'')]
   \<and> sanitizeArgs sample_runtime (Some [(''owner'', VStr ''octo''), (''token'', VStr ''ghp_1'')])
     = sanitizeArgs sample_runtime (Some [(''owner'', VStr ''octo''), (''token'', VStr ''ghp_2'')])"
proof -
  let ?A = "[(''owner'', VStr ''octo''), (''token'', VStr ''ghp_1''),
             (''content'', VStr (replicate 201 CHR ''x''))]"
  let ?a = "[(''owner'', VStr ''octo''), (''token'', VStr ''ghp_1'')]"
  let ?b = "[(''owner'', VStr ''octo''), (''token'', VStr ''ghp_2'')]"
  have d: "differ_only_at ''token'' ?a ?b"
    by (simp add: differ_only_at_def)
  have n: "number_to_string sample_runtime 201 = ''201''"
    by (simp add: number_to_string_def)
  have run: "sanitizeArgs sample_runtime (Some ?A)
     = Inr (Some [(''owner'', VStr ''octo''), (''token'', VStr ''[REDACTED]''),
                  (''content'', VStr ''[201 chars]'')])"
    by (simp add: sanitizeArgs_def field_def content_too_long_def js_gt_def length_indicator_def
          redact_def n)
  have hyp: "(''token'' = ''token'' \<or> ''token'' = ''password'') \<and> differ_only_at ''token'' ?a ?b
      \<and> distinct (map fst ?a) \<and> js_truthy (field ?a ''token'') \<and> js_truthy (field ?b ''token'')"
    using d by (simp add: field_def)
  from sanitizeArgs_redaction [of sample_runtime ?A _ "''token''" ?a ?b] hyp
  have "sanitizeArgs sample_runtime (Some ?a) = sanitizeArgs sample_runtime (Some ?b)"
    by blast
  with run d show ?thesis by simp
qed

text \<open>
  The claim as the spec states it fails for a falsy credential: an empty \<^verbatim>\<open>token\<close> stays
  in the record, so two argument objects that differ only in their \<^verbatim>\<open>token\<close> are told
  apart.
\<close>

theorem sanitizeArgs_falsy_token_counterexample:
  "sanitizeArgs sample_runtime (Some [(''token'', VStr [])]) = Inr (Some [(''token'', VStr [])])
   \<and> sanitizeArgs sample_runtime (Some [(''token'', VStr ''ghp_1'')])
       = Inr (Some [(''token'', VStr ''[REDACTED]'')])
   \<and> sanitizeArgs sample_runtime (Some [(''token'', VStr [])])
       \<noteq> sanitizeArgs sample_runtime (Some [(''token'', VStr ''ghp_1'')])"
  by (simp add: sanitizeArgs_def field_def content_too_long_def redact_def)

lemma sanitizeArgs_hostile:
  "sanitizeArgs rt (Some hostile_args) = Inl (TypeError ''Cannot convert object to primitive value'')"
  by (simp add: sanitizeArgs_def hostile_args_def content_too_long_def field_def js_gt_def)

lemma assign_last: "assign (length st) k v (st @ [ps]) = st @ [set_prop k v ps]"
  by (simp add: assign_def)

lemma redact_at_last: "redact_at (length st) k (st @ [ps]) = st @ [redact k ps]"
  by (simp add: redact_at_def redact_def assign_last)

lemma sanitizeArgs_store_run:
  "sanitizeArgs_store rt (Some a) st =
     (case sanitizeArgs rt (Some (st ! a)) of
        Inl e \<Rightarrow> (Inl e, st @ [st ! a])
      | Inr None \<Rightarrow> (Inr (Some (length st)), st @ [st ! a])
      | Inr (Some s) \<Rightarrow> (Inr (Some (length st)), st @ [s]))"
  by (cases "content_too_long rt (field (st ! a) ''content'')";
      cases "length_indicator rt (field (st ! a) ''content'')")
     (simp_all add: sanitizeArgs_store_def sanitizeArgs_def Let_def assign_last redact_at_last)

lemma sanitizeArgs_store_None: "sanitizeArgs_store rt None st = (Inr None, st)"
  by (simp add: sanitizeArgs_store_def)

lemma sanitizeArgs_store_frame:
  assumes "sanitizeArgs_store rt args st = (r, st')"
  shows "take (length st) st' = st"
proof (cases args)
  case None
  with assms show ?thesis by (simp add: sanitizeArgs_store_None)
next
  case (Some a)
  with assms show ?thesis
    by (cases "sanitizeArgs rt (Some (st ! a))")
       (auto simp: sanitizeArgs_store_run split: option.splits)
qed

lemma sanitizeArgs_Some_result: "sanitizeArgs rt (Some ps) \<noteq> Inr None"
  by (cases "content_too_long rt (field ps ''content'')";
      cases "length_indicator rt (field ps ''content'')")
     (simp_all add: sanitizeArgs_def)

lemma sanitizeArgs_store_fresh_copy:
  assumes "sanitizeArgs_store rt (Some a) st = (Inr r, st')"
  shows "r = Some (length st) \<and> length st' = Suc (length st)
       \<and> sanitizeArgs rt (Some (st ! a)) = Inr (Some (st' ! length st))"
proof (cases "sanitizeArgs rt (Some (st ! a))")
  case (Inl e)
  with assms show ?thesis by (simp add: sanitizeArgs_store_run)
next
  case (Inr s)
  with sanitizeArgs_Some_result [of rt "st ! a"] obtain s' where "s = Some s'"
    by (cases s) auto
  with Inr assms show ?thesis by (auto simp: sanitizeArgs_store_run)
qed

text \<open>
  Claim C10 says that \<^verbatim>\<open>sanitizeArgs\<close> returns the input itself when it is absent and a
  fresh shallow copy otherwise, and never changes its input.  The store is indeed never
  changed below the new reference (\<open>sanitizeArgs_store_frame\<close>), and a returned copy is
  fresh and differs as claim C4 describes (\<open>sanitizeArgs_store_fresh_copy\<close>); but for the
  arguments \<^verbatim>\<open>{content: {length: {toString: 0}}}\<close> the comparison
  \<^verbatim>\<open>sanitized.content.length > 200\<close> throws, and no copy is returned.
\<close>

theorem sanitizeArgs_store_hostile:
  "sanitizeArgs rt (Some hostile_args) = Inl (TypeError ''Cannot convert object to primitive value'')
   \<and> sanitizeArgs_store rt (Some 0) [hostile_args] =
       (Inl (TypeError ''Cannot convert object to primitive value''), [hostile_args, hostile_args])"
  by (simp add: sanitizeArgs_store_run sanitizeArgs_hostile)

section \<open>Properties of \<^verbatim>\<open>githubRequest\<close>\<close>

lemmas io_defs = bind_def return_def throw_def lift_def try_catch_def console_log_def
  Date_now_def read_prop_def


lemma githubRequest_no_token:
  assumes "GITHUB_TOKEN w = None \<or> GITHUB_TOKEN w = Some []"
  shows "githubRequest rt endpoint method body w =
           (Inl (Error ''GITHUB_TOKEN environment variable is not set''), w)"
  using assms by (auto simp: githubRequest_def getGithubToken_def bind_def throw_def)

lemma githubRequest_sent:
  assumes "GITHUB_TOKEN w = Some t" and "t \<noteq> []"
  shows "githubRequest rt endpoint method body w =
     (let req = fetch_options rt t endpoint method body;
          w' = w\<lparr>issued := issued w @ [req]\<rparr>
      in case upstream w (issued w) req of
           Inl e \<Rightarrow> (Inl e, w')
         | Inr response \<Rightarrow>
             (if status response = 204 then (Inr (VObj [(''success'', VBool True)]), w')
              else if \<not> ok response then
                (case get_prop (case json_body response of
                                  Inl e \<Rightarrow> VObj [(''message'', VStr (statusText response))]
                                | Inr j \<Rightarrow> of_json j) ''message'' of
                   Inl e \<Rightarrow> (Inl e, w')
                 | Inr m \<Rightarrow>
                     (case to_string rt (if js_truthy m then m
                                         else VStr (''GitHub API error: '' @ digits (status response))) of
                        Inl e \<Rightarrow> (Inl e, w')
                      | Inr text \<Rightarrow> (Inl (Error text), w')))
              else (map_sum id of_json (json_body response), w')))"
  using assms
  by (simp add: githubRequest_def getGithubToken_def fetch_def io_defs Let_def
        split: sum.splits)



section \<open>Properties of the call handler\<close>

lemma yields_defined_bind: "(\<And>x. yields_defined (f x)) \<Longrightarrow> yields_defined (bind m f)"
  by (auto simp: yields_defined_def bind_def split: prod.splits sum.splits)

lemma yields_defined_arg: "(\<And>x. yields_defined (f x)) \<Longrightarrow> yields_defined (arg args k f)"
  by (simp add: arg_def yields_defined_bind)

lemma yields_defined_throw: "yields_defined (throw e)"
  by (simp add: yields_defined_def throw_def)

lemma yields_defined_return: "v \<noteq> Undefined \<Longrightarrow> yields_defined (return v)"
  by (simp add: yields_defined_def return_def)

lemma yields_defined_try_catch:
  "yields_defined m \<Longrightarrow> (\<And>e. yields_defined (h e)) \<Longrightarrow> yields_defined (try_catch m h)"
  by (auto simp: yields_defined_def try_catch_def split: prod.splits sum.splits)

lemma of_json_defined: "of_json j \<noteq> Undefined"
  by (cases j) simp_all

lemma yields_defined_githubRequest: "yields_defined (githubRequest rt endpoint method body)"
  unfolding githubRequest_def getGithubToken_def fetch_def
  by (auto simp: yields_defined_def io_defs of_json_defined
      split: prod.splits sum.splits if_splits)

lemma yields_defined_request_at: "yields_defined (request_at rt endpoint method body)"
  by (simp add: request_at_def yields_defined_bind yields_defined_githubRequest)

lemmas yields_defined_intros =
  yields_defined_bind yields_defined_arg yields_defined_throw yields_defined_return
  yields_defined_try_catch yields_defined_githubRequest yields_defined_request_at

lemma yields_defined_githubGetFileContents:
  "yields_defined (githubGetFileContents rt a b c d)"
  unfolding githubGetFileContents_def yields_defined_def
  using yields_defined_request_at [unfolded yields_defined_def]
  by (fastforce simp: io_defs split: prod.splits sum.splits if_splits jsval.splits)

lemma yields_defined_githubVerifyToken: "yields_defined (githubVerifyToken rt)"
  unfolding githubVerifyToken_def
  by (intro yields_defined_intros) simp_all

lemma yields_defined_githubPushFiles: "yields_defined (githubPushFiles rt a b c d e)"
  unfolding githubPushFiles_def Let_def
  by (intro yields_defined_intros) simp_all

lemma yields_defined_githubListContents: "yields_defined (githubListContents rt a b c d)"
  unfolding githubListContents_def Let_def
  by (intro yields_defined_intros)

lemma yields_defined_dispatch: "yields_defined (dispatch rt tool args)"
  unfolding dispatch_def githubGetUser_def githubListRepositories_def githubGetRepository_def
    githubCreateRepository_def githubDeleteRepository_def githubCreateOrUpdateFile_def
    githubDeleteFile_def githubListBranches_def githubGetBranch_def githubCreateBranch_def
    githubDeleteBranch_def githubListCommits_def githubGetCommit_def
    githubCreatePullRequest_def githubListPullRequests_def githubGetPullRequest_def
    githubMergePullRequest_def githubCreateIssue_def githubListIssues_def
    githubAddComment_def githubGetTree_def githubSearchRepositories_def
    githubSearchCode_def Let_def
  by (simp only: if_split [of yields_defined] simp_thms
        yields_defined_githubVerifyToken yields_defined_githubPushFiles
        yields_defined_githubListContents yields_defined_githubGetFileContents
        yields_defined_intros)

lemma logToolCall_run:
  "logToolCall rt n args sid w =
     (case sanitizeArgs rt args of
        Inl e \<Rightarrow> (Inl e, w\<lparr>clock_reads := Suc (clock_reads w)\<rparr>)
      | Inr s \<Rightarrow>
          (Inr (),
           w\<lparr>clock_reads := Suc (clock_reads w),
             console := console w @
               [Rule_heavy, TOOL_CALL n, Rule_light,
                Time (rt_toISOString rt (clock w (clock_reads w))), Session sid,
                Arguments (case s of None \<Rightarrow> ''undefined''
                           | Some ps \<Rightarrow> rt_JSON_stringify rt 2 (VObj ps))]\<rparr>))"
  by (simp add: logToolCall_def io_defs split: sum.splits)

lemma logToolResult_error:
  "logToolResult rt n (VStr m) d True w =
     (Inr (), w\<lparr>console := console w @ [Rule_light, Result True d, Error_text m, Rule_heavy]\<rparr>)"
  by (simp add: logToolResult_def io_defs)

lemma logToolResult_success:
  "result \<noteq> Undefined \<Longrightarrow>
   logToolResult rt n result d False w =
     (Inr (),
      w\<lparr>console := console w @
          [Rule_light, Result False d,
           Response (take 500 (rt_JSON_stringify rt 0 result) @
                     (if 500 \<le> length (rt_JSON_stringify rt 0 result) then ''...'' else [])),
           Rule_heavy]\<rparr>)"
  by (simp add: logToolResult_def io_defs JSON_stringify_def Let_def min_def)

lemma handler_throws:
  "sanitizeArgs rt (arguments request) = Inl e \<Longrightarrow>
   fst (CallToolRequestHandler rt request w) = Inl e"
  by (simp add: CallToolRequestHandler_def logToolCall_run bind_def Date_now_def)

lemma handler_run:
  assumes "sanitizeArgs rt (arguments request) = Inr s"
  shows "fst (CallToolRequestHandler rt request w) =
     Inr (case fst (dispatch rt (name request) (arguments request)
                      (snd (logToolCall rt (name request) (arguments request) ''unknown''
                              (snd (Date_now w))))) of
            Inr result \<Rightarrow>
              \<lparr>content = [\<lparr>item_type = ''text'',
                           item_text = Some (rt_JSON_stringify rt 2 result)\<rparr>],
               isError = None\<rparr>
          | Inl error \<Rightarrow>
              \<lparr>content = [\<lparr>item_type = ''text'',
                           item_text = Some (''Error: '' @ error_message error)\<rparr>],
               isError = Some True\<rparr>)"
proof -
  let ?w1 = "snd (logToolCall rt (name request) (arguments request) ''unknown'' (snd (Date_now w)))"
  obtain r w2 where d: "dispatch rt (name request) (arguments request) ?w1 = (r, w2)"
    by (cases "dispatch rt (name request) (arguments request) ?w1")
  show ?thesis
  proof (cases r)
    case (Inl error)
    with d assms show ?thesis
      by (simp add: CallToolRequestHandler_def logToolCall_run logToolResult_error
            bind_def try_catch_def Date_now_def return_def)
  next
    case (Inr result)
    with d have "result \<noteq> Undefined"
      using yields_defined_dispatch [of rt "name request" "arguments request"]
      unfolding yields_defined_def by blast
    with d Inr assms show ?thesis
      by (simp add: CallToolRequestHandler_def logToolCall_run logToolResult_success
            bind_def try_catch_def Date_now_def return_def JSON_stringify_def)
  qed
qed

lemma dispatch_unknown:
  "tool \<notin> set tool_names \<Longrightarrow> dispatch rt tool args = throw (Error (''Unknown tool: '' @ tool))"
  by (simp add: dispatch_def tool_names_def)

lemma handler_unknown_tool:
  assumes "tool \<notin> set tool_names" and "sanitizeArgs rt args = Inr s"
  shows "fst (CallToolRequestHandler rt \<lparr>name = tool, arguments = args\<rparr> w) =
           Inr \<lparr>content = [\<lparr>item_type = ''text'',
                            item_text = Some (''Error: Unknown tool: '' @ tool)\<rparr>],
                isError = Some True\<rparr>
       \<and> issued (snd (CallToolRequestHandler rt \<lparr>name = tool, arguments = args\<rparr> w)) = issued w"
  using assms
  by (simp add: CallToolRequestHandler_def dispatch_unknown logToolCall_run logToolResult_error
        bind_def try_catch_def Date_now_def return_def throw_def)

lemma handler_returns:
  assumes "sanitizeArgs rt (arguments request) = Inr s"
  shows "\<exists>env. fst (CallToolRequestHandler rt request w) = Inr env
           \<and> (isError env = None \<or> isError env = Some True)"
  unfolding handler_run [OF assms] by (simp split: sum.splits)

text \<open>
  Claim C1 says that every call yields exactly one envelope and that no exception passes
  the handler.  That holds whenever the arguments can be logged (\<open>handler_returns\<close>).
  But \<^verbatim>\<open>logToolCall\<close> runs before the \<^verbatim>\<open>try\<close>: for the arguments
  \<^verbatim>\<open>{content: {length: {toString: 0}}}\<close> the exception of \<^verbatim>\<open>sanitizeArgs\<close> leaves the
  handler, which writes no line and returns no envelope.
\<close>

theorem CallToolRequestHandler_hostile_args:
  "CallToolRequestHandler rt \<lparr>name = ''github_get_user'', arguments = Some hostile_args\<rparr> w =
     (Inl (TypeError ''Cannot convert object to primitive value''),
      w\<lparr>clock_reads := Suc (Suc (clock_reads w))\<rparr>)"
  by (simp add: CallToolRequestHandler_def logToolCall_run sanitizeArgs_hostile bind_def
        Date_now_def)

text \<open>
  Claim C2 says that a name outside the catalog yields, with any arguments, the failure
  \<^verbatim>\<open>Error: Unknown tool: <name>\<close> and no upstream request.  That holds whenever the
  arguments can be logged (\<open>handler_unknown_tool\<close>); with the arguments above the handler
  throws before it looks at the name.
\<close>

theorem unknown_tool_hostile_args:
  "''nonexistent_op'' \<notin> set tool_names
   \<and> CallToolRequestHandler rt \<lparr>name = ''nonexistent_op'', arguments = Some hostile_args\<rparr> w =
       (Inl (TypeError ''Cannot convert object to primitive value''),
        w\<lparr>clock_reads := Suc (Suc (clock_reads w))\<rparr>)"
  by (simp add: CallToolRequestHandler_def logToolCall_run sanitizeArgs_hostile bind_def
        Date_now_def tool_names_def)

text \<open>
  Claim C3: every envelope the handler returns has the uniform shape.  When the tool
  returned a result, the envelope holds the JSON text of that result (indented by 2) as its
  one item of type \<^verbatim>\<open>text\<close> and has no \<^verbatim>\<open>isError\<close>; when the tool threw, the item is
  \<^verbatim>\<open>Error: \<close> followed by the message, and \<^verbatim>\<open>isError\<close> is \<^verbatim>\<open>true\<close>.
\<close>

theorem envelope_uniform:
  assumes "fst (CallToolRequestHandler rt request w) = Inr env"
  shows "env =
     (case fst (dispatch rt (name request) (arguments request)
                  (snd (logToolCall rt (name request) (arguments request) ''unknown''
                          (snd (Date_now w))))) of
        Inr result \<Rightarrow>
          \<lparr>content = [\<lparr>item_type = ''text'',
                       item_text = Some (rt_JSON_stringify rt 2 result)\<rparr>],
           isError = None\<rparr>
      | Inl error \<Rightarrow>
          \<lparr>content = [\<lparr>item_type = ''text'',
                       item_text = Some (''Error: '' @ error_message error)\<rparr>],
           isError = Some True\<rparr>)"
proof (cases "sanitizeArgs rt (arguments request)")
  case (Inl e)
  with assms show ?thesis by (simp add: handler_throws)
next
  case (Inr s)
  from handler_run [OF this, of w] assms show ?thesis by simp
qed

theorem envelope_uniform_witness:
  "fst (CallToolRequestHandler sample_runtime \<lparr>name = ''github_get_user'', arguments = None\<rparr>
         (sample_world (Some ''ghp_1'') 200 (Inr (JsonObj [(''login'', JsonStr ''octo'')]))))
     = Inr \<lparr>content = [\<lparr>item_type = ''text'', item_text = Some ''<json>''\<rparr>], isError = None\<rparr>
   \<and> fst (CallToolRequestHandler sample_runtime \<lparr>name = ''unknown_tool'', arguments = None\<rparr>
         (sample_world (Some ''ghp_1'') 200 (Inr (JsonObj [(''login'', JsonStr ''octo'')]))))
     = Inr \<lparr>content = [\<lparr>item_type = ''text'',
                         item_text = Some ''Error: Unknown tool: unknown_tool''\<rparr>],
           isError = Some True\<rparr>"
proof -
  let ?w = "sample_world (Some ''ghp_1'') 200 (Inr (JsonObj [(''login'', JsonStr ''octo'')]))"
  let ?ok = "\<lparr>name = ''github_get_user'', arguments = None\<rparr>"
  let ?bad = "\<lparr>name = ''unknown_tool'', arguments = None\<rparr>"
  have s: "sanitizeArgs sample_runtime None = Inr None"
    by (simp add: sanitizeArgs_def)
  obtain e1 where e1: "fst (CallToolRequestHandler sample_runtime ?ok ?w) = Inr e1"
    using handler_returns [of sample_runtime ?ok None ?w] s by auto
  obtain e2 where e2: "fst (CallToolRequestHandler sample_runtime ?bad ?w) = Inr e2"
    using handler_returns [of sample_runtime ?bad None ?w] s by auto
  have d1: "fst (dispatch sample_runtime ''github_get_user'' None
              (snd (logToolCall sample_runtime ''github_get_user'' None ''unknown'' (snd (Date_now ?w)))))
            = Inr (VObj [(''login'', VStr ''octo'')])"
    by (simp add: dispatch_def githubGetUser_def githubRequest_sent logToolCall_run s
          Date_now_def sample_world_def Let_def ok_def)
  have d2: "fst (dispatch sample_runtime ''unknown_tool'' None
              (snd (logToolCall sample_runtime ''unknown_tool'' None ''unknown'' (snd (Date_now ?w)))))
            = Inl (Error ''Unknown tool: unknown_tool'')"
    by (simp add: dispatch_def throw_def)
  from envelope_uniform [OF e1] d1
  have "e1 = \<lparr>content = [\<lparr>item_type = ''text'', item_text = Some ''<json>''\<rparr>], isError = None\<rparr>"
    by (simp add: sample_runtime_def)
  moreover from envelope_uniform [OF e2] d2
  have "e2 = \<lparr>content = [\<lparr>item_type = ''text'',
                         item_text = Some ''Error: Unknown tool: unknown_tool''\<rparr>],
           isError = Some True\<rparr>"
    by simp
  ultimately show ?thesis using e1 e2 by simp
qed

lemma keeps_console_bind:
  "keeps_console m \<Longrightarrow> (\<And>x. keeps_console (f x)) \<Longrightarrow> keeps_console (bind m f)"
  unfolding keeps_console_def bind_def
  by (auto split: prod.splits sum.splits) (metis snd_conv)+

lemma keeps_console_try_catch:
  "keeps_console m \<Longrightarrow> (\<And>e. keeps_console (h e)) \<Longrightarrow> keeps_console (try_catch m h)"
  unfolding keeps_console_def try_catch_def
  by (auto split: prod.splits sum.splits) (metis snd_conv)+

lemma keeps_console_return: "keeps_console (return x)"
  by (simp add: keeps_console_def return_def)

lemma keeps_console_throw: "keeps_console (throw e)"
  by (simp add: keeps_console_def throw_def)

lemma keeps_console_lift: "keeps_console (lift r)"
  by (simp add: keeps_console_def lift_def)

lemma keeps_console_read_prop: "keeps_console (read_prop v k)"
  by (simp add: read_prop_def keeps_console_lift)

lemma keeps_console_arg: "(\<And>x. keeps_console (f x)) \<Longrightarrow> keeps_console (arg args k f)"
  by (simp add: arg_def keeps_console_bind keeps_console_read_prop)

lemma keeps_console_githubRequest: "keeps_console (githubRequest rt endpoint method body)"
  unfolding githubRequest_def getGithubToken_def fetch_def
  by (auto simp: keeps_console_def io_defs split: prod.splits sum.splits if_splits)

lemma keeps_console_request_at: "keeps_console (request_at rt endpoint method body)"
  by (simp add: request_at_def keeps_console_bind keeps_console_lift keeps_console_githubRequest)

lemmas keeps_console_intros =
  keeps_console_bind keeps_console_try_catch keeps_console_return keeps_console_throw
  keeps_console_lift keeps_console_read_prop keeps_console_arg keeps_console_githubRequest
  keeps_console_request_at

lemma keeps_console_upload_blob: "keeps_console (upload_blob rt owner repo file)"
proof -
  have "keeps_console (blob_callback rt owner repo file)"
    unfolding blob_callback_def by (intro keeps_console_intros)
  then show ?thesis
    by (auto simp: keeps_console_def upload_blob_def split: prod.splits) (metis snd_conv)
qed

lemma keeps_console_upload_blobs: "keeps_console (upload_blobs rt owner repo fs)"
proof (induction fs)
  case Nil
  show ?case by (simp add: keeps_console_def)
next
  case (Cons f fs)
  show ?case
    unfolding keeps_console_def
  proof
    fix w
    obtain r w' where 1: "upload_blob rt owner repo f w = (r, w')"
      by (cases "upload_blob rt owner repo f w")
    obtain rs w'' where 2: "upload_blobs rt owner repo fs w' = (rs, w'')"
      by (cases "upload_blobs rt owner repo fs w'")
    from 1 keeps_console_upload_blob [of rt owner repo f] have "console w' = console w"
      unfolding keeps_console_def by (metis snd_conv)
    moreover from 2 Cons.IH have "console w'' = console w'"
      unfolding keeps_console_def by (metis snd_conv)
    ultimately show "console (snd (upload_blobs rt owner repo (f # fs) w)) = console w"
      by (simp add: 1 2)
  qed
qed

lemma keeps_console_map_files: "keeps_console (map_files rt owner repo files)"
proof (cases files)
  case (VArr fs)
  from keeps_console_upload_blobs [of rt owner repo fs] show ?thesis
    by (auto simp: VArr map_files_def keeps_console_def split: prod.splits) (metis snd_conv)
qed (simp_all add: map_files_def keeps_console_throw)

lemma keeps_console_Promise_all: "keeps_console (Promise_all rs)"
  by (simp add: keeps_console_def Promise_all_def split: list.splits)

lemma keeps_console_githubPushFiles: "keeps_console (githubPushFiles rt a b c d e)"
  unfolding githubPushFiles_def Let_def
  by (intro keeps_console_intros keeps_console_map_files keeps_console_Promise_all)

lemma keeps_console_githubGetFileContents: "keeps_console (githubGetFileContents rt a b c d)"
  unfolding githubGetFileContents_def
  by (intro keeps_console_intros) (simp add: keeps_console_intros)

lemma keeps_console_dispatch: "keeps_console (dispatch rt tool args)"
  unfolding dispatch_def githubVerifyToken_def githubGetUser_def githubListRepositories_def
    githubGetRepository_def githubCreateRepository_def githubDeleteRepository_def
    githubCreateOrUpdateFile_def githubDeleteFile_def githubListBranches_def
    githubGetBranch_def githubCreateBranch_def githubDeleteBranch_def githubListCommits_def
    githubGetCommit_def githubCreatePullRequest_def githubListPullRequests_def
    githubGetPullRequest_def githubMergePullRequest_def githubCreateIssue_def
    githubListIssues_def githubAddComment_def githubGetTree_def githubListContents_def
    githubSearchRepositories_def githubSearchCode_def Let_def
  by (simp only: if_split [of keeps_console] simp_thms keeps_console_githubPushFiles
        keeps_console_githubGetFileContents keeps_console_intros)

lemma handler_console:
  assumes "sanitizeArgs rt (arguments request) = Inr s"
  shows "\<exists>result_lines.
     console (snd (CallToolRequestHandler rt request w)) =
       console w @
       [Rule_heavy, TOOL_CALL (name request), Rule_light,
        Time (rt_toISOString rt (clock w (Suc (clock_reads w)))), Session ''unknown'',
        Arguments (case s of None \<Rightarrow> ''undefined'' | Some ps \<Rightarrow> rt_JSON_stringify rt 2 (VObj ps))]
       @ result_lines"
proof -
  let ?w1 = "snd (logToolCall rt (name request) (arguments request) ''unknown'' (snd (Date_now w)))"
  obtain r w2 where d: "dispatch rt (name request) (arguments request) ?w1 = (r, w2)"
    by (cases "dispatch rt (name request) (arguments request) ?w1")
  with keeps_console_dispatch [of rt "name request" "arguments request"]
  have c: "console w2 = console ?w1"
    unfolding keeps_console_def by (metis snd_conv)
  show ?thesis
  proof (cases r)
    case (Inl error)
    with d c assms show ?thesis
      by (simp add: CallToolRequestHandler_def logToolCall_run logToolResult_error
            bind_def try_catch_def Date_now_def return_def)
  next
    case (Inr result)
    with d have "result \<noteq> Undefined"
      using yields_defined_dispatch [of rt "name request" "arguments request"]
      unfolding yields_defined_def by blast
    with d c Inr assms show ?thesis
      by (simp add: CallToolRequestHandler_def logToolCall_run logToolResult_success
            bind_def try_catch_def Date_now_def return_def JSON_stringify_def)
  qed
qed

text \<open>
  Claim C8 says that the call-start record holds the operation name, a timestamp, the
  identifier of the session of the call and the sanitized arguments.  The handler calls
  \<^verbatim>\<open>logToolCall(name, args)\<close> without a session identifier, so the parameter
  \<^verbatim>\<open>sessionId\<close> takes its default: whenever the arguments can be logged, the six lines the
  call adds first to the console are the record, with the name, the timestamp and the
  sanitized arguments, and with \<^verbatim>\<open>unknown\<close> in the session line, whatever session the
  call belongs to.
\<close>

theorem call_start_record_session_unknown:
  assumes "sanitizeArgs rt (arguments request) = Inr s"
  shows "take 6 (drop (length (console w)) (console (snd (CallToolRequestHandler rt request w)))) =
     [Rule_heavy, TOOL_CALL (name request), Rule_light,
      Time (rt_toISOString rt (clock w (Suc (clock_reads w)))), Session ''unknown'',
      Arguments (case s of None \<Rightarrow> ''undefined'' | Some ps \<Rightarrow> rt_JSON_stringify rt 2 (VObj ps))]"
  using handler_console [OF assms, of w] by auto

theorem call_start_record_session_unknown_witness:
  "sanitizeArgs sample_runtime (Some []) = Inr (Some [])
   \<and> take 6 (console (snd (CallToolRequestHandler sample_runtime
                \<lparr>name = ''github_get_user'', arguments = Some []\<rparr>
                (sample_world (Some ''ghp_1'') 200 (Inr (JsonObj [(''login'', JsonStr ''octo'')]))))))
     = [Rule_heavy, TOOL_CALL ''github_get_user'', Rule_light,
        Time ''<timestamp>'', Session ''unknown'', Arguments ''<json>'']"
proof -
  have s: "sanitizeArgs sample_runtime (arguments \<lparr>name = ''github_get_user'', arguments = Some []\<rparr>)
             = Inr (Some [])"
    by (simp add: sanitizeArgs_def content_too_long_def field_def redact_def)
  from call_start_record_session_unknown [OF s,
         of "sample_world (Some ''ghp_1'') 200 (Inr (JsonObj [(''login'', JsonStr ''octo'')]))"] s
  show ?thesis
    by (simp add: sample_world_def sample_runtime_def)
qed

section \<open>Properties of \<^verbatim>\<open>githubVerifyToken\<close>\<close>

lemma try_catch_return:
  "fst (try_catch m (\<lambda>e. return (g e)) w) = Inr (case fst (m w) of Inl e \<Rightarrow> g e | Inr x \<Rightarrow> x)"
  by (simp add: try_catch_def return_def split: prod.splits sum.splits)

lemma get_prop_total:
  "v \<noteq> Undefined \<Longrightarrow> v \<noteq> VNull \<Longrightarrow> \<exists>x. get_prop v k = Inr x"
  by (cases v) simp_all

lemma githubGetUser_defined: "fst (githubGetUser rt w) = Inr user \<Longrightarrow> user \<noteq> Undefined"
  using yields_defined_githubRequest [of rt "''/user''" "''GET''" VNull]
  unfolding yields_defined_def githubGetUser_def
  by (metis prod.collapse)

lemma githubVerifyToken_failure:
  assumes "fst (githubGetUser rt w) = Inl e"
  shows "fst (githubVerifyToken rt w) =
           Inr (VObj [(''valid'', VBool False), (''error'', VStr (error_message e))])"
proof -
  obtain w1 where "githubGetUser rt w = (Inl e, w1)"
    using assms by (cases "githubGetUser rt w") simp
  then show ?thesis
    by (simp add: githubVerifyToken_def try_catch_return bind_def)
qed

lemma githubVerifyToken_null:
  assumes "fst (githubGetUser rt w) = Inr VNull"
  shows "fst (githubVerifyToken rt w) =
     Inr (VObj [(''valid'', VBool False),
                (''error'', VStr (''Cannot read properties of null (reading '' @ quoted ''login'' @ '')''))])"
proof -
  obtain w1 where "githubGetUser rt w = (Inr VNull, w1)"
    using assms by (cases "githubGetUser rt w") simp
  then show ?thesis
    by (simp add: githubVerifyToken_def try_catch_return bind_def read_prop_def lift_def)
qed

lemma githubVerifyToken_success:
  assumes "fst (githubGetUser rt w) = Inr user" and "user \<noteq> VNull"
  shows "\<exists>login name' email avatar_url.
           get_prop user ''login'' = Inr login \<and> get_prop user ''name'' = Inr name'
         \<and> get_prop user ''email'' = Inr email \<and> get_prop user ''avatar_url'' = Inr avatar_url
         \<and> fst (githubVerifyToken rt w) =
             Inr (VObj [(''valid'', VBool True),
                        (''user'', VObj [(''login'', login), (''name'', name'),
                                         (''email'', email), (''avatar_url'', avatar_url)])])"
proof -
  from assms have u: "user \<noteq> Undefined" "user \<noteq> VNull"
    by (simp_all add: githubGetUser_defined)
  from get_prop_total [OF u] obtain login name' email avatar_url where
    p: "get_prop user ''login'' = Inr login" "get_prop user ''name'' = Inr name'"
       "get_prop user ''email'' = Inr email" "get_prop user ''avatar_url'' = Inr avatar_url"
    by metis
  obtain w1 where "githubGetUser rt w = (Inr user, w1)"
    using assms(1) by (cases "githubGetUser rt w") simp
  with p have "fst (githubVerifyToken rt w) =
             Inr (VObj [(''valid'', VBool True),
                        (''user'', VObj [(''login'', login), (''name'', name'),
                                         (''email'', email), (''avatar_url'', avatar_url)])])"
    by (simp add: githubVerifyToken_def try_catch_return bind_def read_prop_def lift_def return_def)
  with p show ?thesis by blast
qed

lemma verify_token_envelope:
  assumes "name request = ''github_verify_token''"
    and "fst (CallToolRequestHandler rt request w) = Inr env"
  shows "isError env = None"
proof (cases "sanitizeArgs rt (arguments request)")
  case (Inl e)
  with assms show ?thesis by (simp add: handler_throws)
next
  case (Inr s)
  show ?thesis
    using handler_run [OF Inr, of w] assms
    by (simp add: dispatch_def githubVerifyToken_def try_catch_return)
qed

text \<open>
  Claim C9, as the code has it.  \<^verbatim>\<open>githubVerifyToken\<close> never throws.  When the user lookup
  returns a value other than \<^verbatim>\<open>null\<close>, the result is \<^verbatim>\<open>{valid: true, user: {login, name,
  email, avatar_url}}\<close> with the four properties read from that value; when the lookup
  returns \<^verbatim>\<open>null\<close>, reading \<^verbatim>\<open>user.login\<close> throws inside the \<^verbatim>\<open>try\<close> and the result is
  \<^verbatim>\<open>{valid: false, error}\<close> with the message of that exception; when the lookup fails,
  the result is \<^verbatim>\<open>{valid: false, error}\<close> with the message of the failure.  Every envelope
  the call handler returns for \<^verbatim>\<open>github_verify_token\<close> is a success envelope.
\<close>

theorem githubVerifyToken_total:
  "(\<exists>r. fst (githubVerifyToken rt w) = Inr r)
   \<and> (fst (githubGetUser rt w) = Inr user \<and> user \<noteq> VNull \<longrightarrow>
        (\<exists>login name' email avatar_url.
           get_prop user ''login'' = Inr login \<and> get_prop user ''name'' = Inr name'
         \<and> get_prop user ''email'' = Inr email \<and> get_prop user ''avatar_url'' = Inr avatar_url
         \<and> fst (githubVerifyToken rt w) =
             Inr (VObj [(''valid'', VBool True),
                        (''user'', VObj [(''login'', login), (''name'', name'),
                                         (''email'', email), (''avatar_url'', avatar_url)])])))
   \<and> (fst (githubGetUser rt w) = Inr VNull \<longrightarrow>
        fst (githubVerifyToken rt w) =
          Inr (VObj [(''valid'', VBool False),
                     (''error'', VStr (''Cannot read properties of null (reading '' @
                                        quoted ''login'' @ '')''))]))
   \<and> (fst (githubGetUser rt w) = Inl e \<longrightarrow>
        fst (githubVerifyToken rt w) =
          Inr (VObj [(''valid'', VBool False), (''error'', VStr (error_message e))]))
   \<and> (name request = ''github_verify_token''
        \<and> fst (CallToolRequestHandler rt request w') = Inr env \<longrightarrow>
        isError env = None)"
  using githubVerifyToken_success [of rt w user] githubVerifyToken_null [of rt w]
    githubVerifyToken_failure [of rt w e] verify_token_envelope [of request rt w' env]
  by (simp add: githubVerifyToken_def try_catch_return)

theorem githubVerifyToken_total_witness:
  "fst (githubGetUser sample_runtime
          (sample_world (Some ''ghp_1'') 200 (Inr (JsonObj [(''login'', JsonStr ''octo'')]))))
     = Inr (VObj [(''login'', VStr ''octo'')])
   \<and> fst (githubVerifyToken sample_runtime
          (sample_world (Some ''ghp_1'') 200 (Inr (JsonObj [(''login'', JsonStr ''octo'')]))))
     = Inr (VObj [(''valid'', VBool True),
                  (''user'', VObj [(''login'', VStr ''octo''), (''name'', Undefined),
                                   (''email'', Undefined), (''avatar_url'', Undefined)])])
   \<and> fst (githubGetUser sample_runtime (sample_world None 200 (Inr JsonNull)))
     = Inl (Error ''GITHUB_TOKEN environment variable is not set'')
   \<and> fst (githubVerifyToken sample_runtime (sample_world None 200 (Inr JsonNull)))
     = Inr (VObj [(''valid'', VBool False),
                  (''error'', VStr ''GITHUB_TOKEN environment variable is not set'')])
   \<and> fst (CallToolRequestHandler sample_runtime
            \<lparr>name = ''github_verify_token'', arguments = None\<rparr>
            (sample_world None 200 (Inr JsonNull)))
     = Inr \<lparr>content = [\<lparr>item_type = ''text'', item_text = Some ''<json>''\<rparr>], isError = None\<rparr>"
proof -
  let ?w = "sample_world (Some ''ghp_1'') 200 (Inr (JsonObj [(''login'', JsonStr ''octo'')]))"
  let ?n = "sample_world None 200 (Inr JsonNull)"
  let ?r = "\<lparr>name = ''github_verify_token'', arguments = None\<rparr>"
  have u: "fst (githubGetUser sample_runtime ?w) = Inr (VObj [(''login'', VStr ''octo'')])"
    by (simp add: githubGetUser_def githubRequest_sent sample_world_def Let_def ok_def)
  have f: "fst (githubGetUser sample_runtime ?n)
             = Inl (Error ''GITHUB_TOKEN environment variable is not set'')"
    by (simp add: githubGetUser_def githubRequest_no_token sample_world_def)
  have s: "sanitizeArgs sample_runtime (arguments ?r) = Inr None"
    by (simp add: sanitizeArgs_def)
  obtain env where env: "fst (CallToolRequestHandler sample_runtime ?r ?n) = Inr env"
    using handler_returns [OF s, of ?n] by auto
  have shape: "env = \<lparr>content = [\<lparr>item_type = ''text'', item_text = Some ''<json>''\<rparr>], isError = None\<rparr>"
    using handler_run [OF s, of ?n] env
    by (simp add: dispatch_def githubVerifyToken_def try_catch_return sample_runtime_def)
  from githubVerifyToken_total [of sample_runtime ?w "VObj [(''login'', VStr ''octo'')]" _ ?r ?n env] u
  have 1: "fst (githubVerifyToken sample_runtime ?w)
     = Inr (VObj [(''valid'', VBool True),
                  (''user'', VObj [(''login'', VStr ''octo''), (''name'', Undefined),
                                   (''email'', Undefined), (''avatar_url'', Undefined)])])"
    by (auto simp: field_def)
  from githubVerifyToken_total
         [of sample_runtime ?n _ "Error ''GITHUB_TOKEN environment variable is not set''" ?r ?n env] f env
  have 2: "fst (githubVerifyToken sample_runtime ?n)
     = Inr (VObj [(''valid'', VBool False),
                  (''error'', VStr ''GITHUB_TOKEN environment variable is not set'')])"
    and 3: "isError env = None"
    by simp_all
  from u f 1 2 env shape show ?thesis by simp
qed

text \<open>
  The claim as the spec states it fails when the lookup succeeds with \<^verbatim>\<open>null\<close> (status 200,
  body \<^verbatim>\<open>null\<close>): the lookup returns, and the result says \<^verbatim>\<open>valid: false\<close>.
\<close>

theorem githubVerifyToken_null_user_counterexample:
  "fst (githubGetUser sample_runtime (sample_world (Some ''ghp_1'') 200 (Inr JsonNull))) = Inr VNull
   \<and> fst (githubVerifyToken sample_runtime (sample_world (Some ''ghp_1'') 200 (Inr JsonNull))) =
       Inr (VObj [(''valid'', VBool False),
                  (''error'', VStr (''Cannot read properties of null (reading '' @
                                     quoted ''login'' @ '')''))])"
proof -
  have "fst (githubGetUser sample_runtime (sample_world (Some ''ghp_1'') 200 (Inr JsonNull))) = Inr VNull"
    by (simp add: githubGetUser_def githubRequest_sent sample_world_def Let_def ok_def)
  then show ?thesis by (simp add: githubVerifyToken_null)
qed

section \<open>Properties of the session table\<close>

lemma is_uuid_nonempty: "is_uuid s \<Longrightarrow> s \<noteq> []"
  by (auto simp: is_uuid_def uuid_shape_def)

lemma wf_sessions_no_empty: "wf_sessions a \<Longrightarrow> sessions a [] = None"
proof (rule ccontr)
  assume wf: "wf_sessions a" and "sessions a [] \<noteq> None"
  then obtain s where "sessions a [] = Some s" by auto
  with wf have "is_uuid []" by (auto simp: wf_sessions_def)
  then show False using is_uuid_nonempty by blast
qed





lemma post_mcp_known:
  assumes "sessionId \<noteq> []" "sessions a sessionId = Some s"
  shows "post_mcp (Some sessionId) env a = respond sessionId s env a"
  using assms by (simp add: post_mcp_def)

lemma wf_sessions_initial: "wf_sessions (initial_app source)"
  by (simp add: wf_sessions_def initial_app_def)

lemma wf_sessions_respond:
  assumes "wf_sessions a" "is_uuid sessionId" "sessionId \<in> set (drawn a)"
    "transport s < next_object a" "server s < next_object a"
  shows "wf_sessions (snd (respond sessionId s env a))"
  using assms
  by (auto simp: wf_sessions_def respond_def drawn_def Let_def split: option.splits if_splits)

lemma wf_sessions_post_mcp:
  assumes "wf_sessions a" and "randomUUID_contract a"
  shows "wf_sessions (snd (post_mcp header env a))"
proof (cases "\<exists>sessionId s. header = Some sessionId \<and> sessionId \<noteq> [] \<and> sessions a sessionId = Some s")
  case True
  then obtain sessionId s where h: "header = Some sessionId" "sessionId \<noteq> []" "sessions a sessionId = Some s"
    by blast
  with assms(1) have "is_uuid sessionId" "sessionId \<in> set (drawn a)"
    "transport s < next_object a" "server s < next_object a"
    by (auto simp: wf_sessions_def)
  with h assms(1) show ?thesis
    by (simp add: post_mcp_known wf_sessions_respond)
next
  case False
  then have "post_mcp header env a = create_session env a"
    by (auto simp: post_mcp_def split: option.splits)
  moreover have "wf_sessions (snd (create_session env a))"
  proof (cases "connect env")
    case None
    let ?u = "uuid_source a (uuid_calls a)"
    let ?s = "\<lparr>transport = Suc (next_object a), server = next_object a\<rparr>"
    let ?a = "a\<lparr>uuid_calls := Suc (uuid_calls a), next_object := next_object a + 2,
                sessions := (sessions a)(?u \<mapsto> ?s)\<rparr>"
    have d: "drawn ?a = drawn a @ [?u]"
      by (simp add: drawn_def)
    have "wf_sessions ?a"
      using assms unfolding wf_sessions_def randomUUID_contract_def d
      by (auto simp: less_SucI)
    moreover have "is_uuid ?u"
      using assms(2) by (simp add: randomUUID_contract_def)
    moreover have "?u \<in> set (drawn ?a)"
      by (simp add: drawn_def)
    ultimately have "wf_sessions (snd (respond ?u ?s env ?a))"
      by (rule wf_sessions_respond) simp_all
    with None show ?thesis by (simp add: create_session_def randomUUID_def Let_def)
  next
    case (Some e)
    let ?a = "a\<lparr>uuid_calls := Suc (uuid_calls a), next_object := next_object a + 2\<rparr>"
    have d: "drawn ?a = drawn a @ [uuid_source a (uuid_calls a)]"
      by (simp add: drawn_def)
    have "wf_sessions ?a"
      using assms(1) unfolding wf_sessions_def d by (auto simp: less_SucI)
    then have "wf_sessions (?a\<lparr>console_error := console_error a @ [e]\<rparr>)"
      by (simp add: wf_sessions_def drawn_def)
    with Some show ?thesis by (simp add: create_session_def randomUUID_def Let_def)
  qed
  ultimately show ?thesis by simp
qed

lemma wf_sessions_delete_mcp:
  assumes "wf_sessions a"
  shows "wf_sessions (snd (delete_mcp header a))"
  using assms by (auto simp: wf_sessions_def delete_mcp_def drawn_def split: option.splits if_splits)



text \<open>
  Claim C6: in every state the application reaches (the table has no entry for the empty
  identifier, see \<open>wf_sessions_no_empty\<close> and \<open>wf_sessions_post_mcp\<close>), \<^verbatim>\<open>DELETE /mcp\<close>
  answers 200 and removes the binding when the identifier is in the table, and answers 404
  and leaves the table as it is otherwise (also without a header).  So deleting the same
  identifier twice answers 200 and then 404, and a \<^verbatim>\<open>POST\<close> with that identifier
  afterwards creates a new session.
\<close>

theorem delete_mcp_termination:
  assumes "sessions a [] = None"
  shows "(sessions a sessionId \<noteq> None \<longrightarrow>
            delete_mcp (Some sessionId) a =
              ((200, VObj [(''success'', VBool True)]),
               a\<lparr>sessions := (sessions a)(sessionId := None)\<rparr>))
       \<and> (sessions a sessionId = None \<longrightarrow>
            delete_mcp (Some sessionId) a =
              ((404, VObj [(''error'', VStr ''Session not found'')]), a))
       \<and> delete_mcp None a = ((404, VObj [(''error'', VStr ''Session not found'')]), a)
       \<and> (sessions a sessionId \<noteq> None \<longrightarrow>
            fst (delete_mcp (Some sessionId) (snd (delete_mcp (Some sessionId) a))) =
              (404, VObj [(''error'', VStr ''Session not found'')]))
       \<and> (sessions a sessionId \<noteq> None \<longrightarrow>
            post_mcp (Some sessionId) env (snd (delete_mcp (Some sessionId) a)) =
              create_session env (snd (delete_mcp (Some sessionId) a)))"
proof -
  have ne: "sessionId \<noteq> []" if "sessions a sessionId \<noteq> None"
    using assms that by auto
  have found: "delete_mcp (Some sessionId) a =
      ((200, VObj [(''success'', VBool True)]), a\<lparr>sessions := (sessions a)(sessionId := None)\<rparr>)"
    if "sessions a sessionId \<noteq> None"
    using that ne by (auto simp: delete_mcp_def)
  have missing: "delete_mcp (Some sessionId) a' =
      ((404, VObj [(''error'', VStr ''Session not found'')]), a')"
    if "sessions a' sessionId = None" for a'
    using that by (simp add: delete_mcp_def)
  show ?thesis
    using found missing [of a]
      missing [of "a\<lparr>sessions := (sessions a)(sessionId := None)\<rparr>"]
    by (auto simp: delete_mcp_def post_mcp_def)
qed

theorem delete_mcp_termination_witness:
  "sessions sample_app [] = None
   \<and> fst (delete_mcp (Some ''1b4e28ba-2fa1-4d3b-a3f5-ef19b5a7633b'') sample_app)
       = (200, VObj [(''success'', VBool True)])
   \<and> sessions (snd (delete_mcp (Some ''1b4e28ba-2fa1-4d3b-a3f5-ef19b5a7633b'') sample_app))
       ''1b4e28ba-2fa1-4d3b-a3f5-ef19b5a7633b'' = None
   \<and> fst (delete_mcp (Some ''1b4e28ba-2fa1-4d3b-a3f5-ef19b5a7633b'')
            (snd (delete_mcp (Some ''1b4e28ba-2fa1-4d3b-a3f5-ef19b5a7633b'') sample_app)))
       = (404, VObj [(''error'', VStr ''Session not found'')])
   \<and> fst (delete_mcp (Some ''9f1c2a77-5d0e-4c58-8b3a-0c6f4de2a911'') sample_app)
       = (404, VObj [(''error'', VStr ''Session not found'')])
   \<and> Mcp_Session_Id (fst (post_mcp (Some ''1b4e28ba-2fa1-4d3b-a3f5-ef19b5a7633b'') sample_env
                           (snd (delete_mcp (Some ''1b4e28ba-2fa1-4d3b-a3f5-ef19b5a7633b'') sample_app))))
       = Some ''6ec0bd7f-11c0-43da-975e-2a8ad9ebae0b''"
proof -
  let ?old = "''1b4e28ba-2fa1-4d3b-a3f5-ef19b5a7633b''"
  let ?never = "''9f1c2a77-5d0e-4c58-8b3a-0c6f4de2a911''"
  have wf: "sessions sample_app [] = None"
    by (simp add: sample_app_def)
  have k: "sessions sample_app ?old \<noteq> None" and u: "sessions sample_app ?never = None"
    by (simp_all add: sample_app_def)
  note t = delete_mcp_termination [OF wf, of ?old sample_env]
  from t k have 1: "delete_mcp (Some ?old) sample_app =
              ((200, VObj [(''success'', VBool True)]),
               sample_app\<lparr>sessions := (sessions sample_app)(?old := None)\<rparr>)"
    by blast
  from t k have 2: "fst (delete_mcp (Some ?old) (snd (delete_mcp (Some ?old) sample_app))) =
              (404, VObj [(''error'', VStr ''Session not found'')])"
    by blast
  from t k have 3: "post_mcp (Some ?old) sample_env (snd (delete_mcp (Some ?old) sample_app)) =
              create_session sample_env (snd (delete_mcp (Some ?old) sample_app))"
    by blast
  from delete_mcp_termination [OF wf, of ?never sample_env] u
  have 4: "delete_mcp (Some ?never) sample_app =
              ((404, VObj [(''error'', VStr ''Session not found'')]), sample_app)"
    by blast
  have 5: "Mcp_Session_Id (fst (create_session sample_env
              (sample_app\<lparr>sessions := (sessions sample_app)(?old := None)\<rparr>)))
            = Some ''6ec0bd7f-11c0-43da-975e-2a8ad9ebae0b''"
    by (simp add: create_session_def randomUUID_def respond_def sample_env_def sample_app_def
          sample_uuids_def Let_def)
  have 6: "sessions (snd (delete_mcp (Some ?old) sample_app)) ?old = None"
    by (simp add: 1)
  from 5 have 7: "Mcp_Session_Id (fst (post_mcp (Some ?old) sample_env
                     (snd (delete_mcp (Some ?old) sample_app))))
            = Some ''6ec0bd7f-11c0-43da-975e-2a8ad9ebae0b''"
    by (simp add: 3) (simp add: 1)
  from wf 1 2 4 6 7 show ?thesis by (simp only: fst_conv simp_thms)
qed

end
